theory Spec2Isabelle
  imports Main "HOL-Library.Word"
begin

section \<open>Kubernetes core objects read by the monitor action\<close>

text \<open>
  The Go types \<open>corev1.ConditionStatus\<close>, \<open>corev1.PodConditionType\<close>,
  \<open>v1.IntegrationPhase\<close>, \<open>v1.IntegrationKitPhase\<close> and
  \<open>v1.IntegrationConditionType\<close> are all named string types, so they are strings here
  and their zero value is the empty string.
\<close>

type_synonym ConditionStatus = string

abbreviation ConditionTrue :: ConditionStatus where "ConditionTrue \<equiv> ''True''"
abbreviation ConditionFalse :: ConditionStatus where "ConditionFalse \<equiv> ''False''"

abbreviation PodScheduled :: string where "PodScheduled \<equiv> ''PodScheduled''"
abbreviation PodReady :: string where "PodReady \<equiv> ''Ready''"
abbreviation PodPending :: string where "PodPending \<equiv> ''Pending''"
abbreviation PodRunning :: string where "PodRunning \<equiv> ''Running''"

record PodCondition =
  pcType :: string
  pcStatus :: ConditionStatus
  pcReason :: string
  pcMessage :: string

record ContainerStateWaiting =
  wReason :: string
  wMessage :: string

record ContainerStateTerminated =
  tReason :: string
  tMessage :: string

record ContainerState =
  Waiting :: "ContainerStateWaiting option"
  Terminated :: "ContainerStateTerminated option"

record ContainerStatus =
  csName :: string
  State :: ContainerState

record HTTPGetAction =
  Path :: string
  Port :: string

record Probe =
  HTTPGet :: "HTTPGetAction option"

record Container =
  cName :: string
  ReadinessProbe :: "Probe option"

text \<open>
  A pod: metadata (name, namespace, deletion timestamp), the containers of its spec and
  the parts of its status the monitor reads. The deletion timestamp is only ever tested
  against nil, so its value is an opaque number.
\<close>

record Pod =
  podName :: string
  podNamespace :: string
  DeletionTimestamp :: "nat option"
  SpecContainers :: "Container list"
  podConditions :: "PodCondition list"
  InitContainerStatuses :: "ContainerStatus list"
  ContainerStatuses :: "ContainerStatus list"

text \<open>
  Modelled from the spec: \<open>kubernetes.GetPodCondition\<close> lives in
  \<open>pkg/util/kubernetes\<close>, which is not among the sources. It yields a pointer to the
  pod's condition of the given type, or nil when the pod has none; the callers test the
  pointer against nil (\<open>scheduled != nil\<close>).
\<close>

definition GetPodCondition :: "Pod \<Rightarrow> string \<Rightarrow> PodCondition option" where
  "GetPodCondition pod conditionType =
     find (\<lambda>c. pcType c = conditionType) (podConditions pod)"

section \<open>The Integration resource and its conditions\<close>

text \<open>
  Modelled from the spec: the constants of \<open>pkg/apis/camel/v1\<close> (phases, condition
  types, condition reasons, label keys, the health status) are not among the sources.
  The spec names them; the properties below depend only on their being distinct.
\<close>

abbreviation IntegrationPhaseDeploying :: string where "IntegrationPhaseDeploying \<equiv> ''Deploying''"
abbreviation IntegrationPhaseRunning :: string where "IntegrationPhaseRunning \<equiv> ''Running''"
abbreviation IntegrationPhaseError :: string where "IntegrationPhaseError \<equiv> ''Error''"

abbreviation IntegrationKitPhaseReady :: string where "IntegrationKitPhaseReady \<equiv> ''Ready''"
abbreviation IntegrationKitPhaseError :: string where "IntegrationKitPhaseError \<equiv> ''Error''"

abbreviation IntegrationConditionReady :: string where
  "IntegrationConditionReady \<equiv> ''Ready''"
abbreviation IntegrationConditionKitAvailable :: string where
  "IntegrationConditionKitAvailable \<equiv> ''IntegrationKitAvailable''"
abbreviation IntegrationConditionDeploymentAvailable :: string where
  "IntegrationConditionDeploymentAvailable \<equiv> ''DeploymentAvailable''"
abbreviation IntegrationConditionKnativeServiceAvailable :: string where
  "IntegrationConditionKnativeServiceAvailable \<equiv> ''KnativeServiceAvailable''"
abbreviation IntegrationConditionCronJobAvailable :: string where
  "IntegrationConditionCronJobAvailable \<equiv> ''CronJobAvailable''"

abbreviation IntegrationConditionErrorReason :: string where
  "IntegrationConditionErrorReason \<equiv> ''Error''"
abbreviation IntegrationConditionRuntimeNotReadyReason :: string where
  "IntegrationConditionRuntimeNotReadyReason \<equiv> ''RuntimeNotReady''"
abbreviation IntegrationConditionInitializationFailedReason :: string where
  "IntegrationConditionInitializationFailedReason \<equiv> ''InitializationFailed''"
abbreviation IntegrationConditionMonitoringPodsAvailableReason :: string where
  "IntegrationConditionMonitoringPodsAvailableReason \<equiv> ''MonitoringPodsAvailable''"

abbreviation IntegrationLabel :: string where
  "IntegrationLabel \<equiv> ''camel.apache.org/integration''"
abbreviation IntegrationKitPriorityLabel :: string where
  "IntegrationKitPriorityLabel \<equiv> ''camel.apache.org/kit.priority''"

abbreviation HealthCheckStatusUp :: string where "HealthCheckStatusUp \<equiv> ''UP''"

record HealthCheckResponse =
  hcName :: string
  hcStatus :: string
  hcData :: "(string \<times> string) list"

record HealthCheck =
  hStatus :: string
  Checks :: "HealthCheckResponse list"

text \<open>The per-pod entry of an Integration condition (\<open>v1.PodCondition\<close>).\<close>

record IntegrationPodCondition =
  ipName :: string
  ipCondition :: PodCondition
  ipHealth :: "HealthCheckResponse list"

record IntegrationCondition =
  icType :: string
  icStatus :: ConditionStatus
  icReason :: string
  icMessage :: string
  icPods :: "IntegrationPodCondition list"

record ObjectReference =
  refNamespace :: string
  refName :: string

record MountTrait =
  HotReload :: "bool option"
  Configs :: "string list"
  Resources :: "string list"

text \<open>
  The Integration: name, namespace and annotations of its metadata, the mount trait of
  its spec (the only part of the spec the monitor reads itself; the rest is opaque and
  only hashed), and its status, kept flat.
\<close>

record Integration =
  Name :: string
  Namespace :: string
  Annotations :: "string \<rightharpoonup> string"
  SpecMount :: "MountTrait option"
  SpecRest :: string
  Phase :: string
  Digest :: string
  Replicas :: "32 word option"
  Selector :: string
  Conditions :: "IntegrationCondition list"
  IntegrationKit :: "ObjectReference option"

record IntegrationKit =
  kitName :: string
  kitNamespace :: string
  kitLabels :: "string \<rightharpoonup> string"
  kitAnnotations :: "string \<rightharpoonup> string"
  kitPhase :: string

text \<open>
  Modelled from the spec: the condition accessors of \<open>v1.IntegrationStatus\<close> are
  declared in \<open>pkg/apis/camel/v1\<close>, which is not among the sources. The spec describes a
  condition as a named status fact (type, status, reason, message, per-pod details);
  several conditions coexist, and writing one overwrites the condition of that type
  without losing the unrelated ones. Timestamps are not modelled.
\<close>

definition GetCondition :: "Integration \<Rightarrow> string \<Rightarrow> IntegrationCondition option" where
  "GetCondition integration condType =
     find (\<lambda>c. icType c = condType) (Conditions integration)"

definition SetConditions :: "IntegrationCondition \<Rightarrow> Integration \<Rightarrow> Integration" where
  "SetConditions condition integration =
     integration\<lparr>Conditions :=
       filter (\<lambda>c. icType c \<noteq> icType condition) (Conditions integration) @ [condition]\<rparr>"

definition SetReadyCondition ::
  "ConditionStatus \<Rightarrow> string \<Rightarrow> string \<Rightarrow> Integration \<Rightarrow> Integration" where
  "SetReadyCondition status reason message integration =
     SetConditions \<lparr>icType = IntegrationConditionReady, icStatus = status,
                    icReason = reason, icMessage = message, icPods = []\<rparr> integration"

definition SetReadyConditionError :: "string \<Rightarrow> Integration \<Rightarrow> Integration" where
  "SetReadyConditionError err integration =
     SetReadyCondition ConditionFalse IntegrationConditionErrorReason err integration"

definition IsConditionTrue :: "Integration \<Rightarrow> string \<Rightarrow> bool" where
  "IsConditionTrue integration condType =
     (case GetCondition integration condType of
        None \<Rightarrow> False
      | Some cond \<Rightarrow> icStatus cond = ConditionTrue)"

section \<open>Pod failure scan\<close>

text \<open>
  \<open>arePodsFailingStatuses\<close> runs three loops, each of which returns from the function at
  its first hit after setting the phase and the ready condition. Each loop is a function
  that yields the message of its first hit, if any.
\<close>

fun scanScheduled :: "Pod list \<Rightarrow> string option" where
  "scanScheduled [] = None"
| "scanScheduled (pod # pods) =
     (case GetPodCondition pod PodScheduled of
        Some scheduled \<Rightarrow>
          if pcStatus scheduled = ConditionFalse \<and> pcReason scheduled = ''Unschedulable''
          then Some (pcMessage scheduled)
          else scanScheduled pods
      | None \<Rightarrow> scanScheduled pods)"

definition podContainerStatuses :: "Pod \<Rightarrow> ContainerStatus list" where
  "podContainerStatuses pod = InitContainerStatuses pod @ ContainerStatuses pod"

fun scanImagePull :: "ContainerStatus list \<Rightarrow> string option" where
  "scanImagePull [] = None"
| "scanImagePull (container # containers) =
     (case Waiting (State container) of
        Some waiting \<Rightarrow>
          if wReason waiting = ''ImagePullBackOff'' then Some (wMessage waiting)
          else scanImagePull containers
      | None \<Rightarrow> scanImagePull containers)"

fun scanPendingContainers :: "Pod list \<Rightarrow> string option" where
  "scanPendingContainers [] = None"
| "scanPendingContainers (pod # pods) =
     (case scanImagePull (podContainerStatuses pod) of
        Some msg \<Rightarrow> Some msg
      | None \<Rightarrow> scanPendingContainers pods)"

definition containerCrashLoop :: "ContainerStatus \<Rightarrow> string option" where
  "containerCrashLoop container =
     (case Waiting (State container) of
        Some waiting \<Rightarrow>
          if wReason waiting = ''CrashLoopBackOff'' then Some (wMessage waiting) else None
      | None \<Rightarrow> None)"

definition containerTerminatedError :: "ContainerStatus \<Rightarrow> string option" where
  "containerTerminatedError container =
     (case Terminated (State container) of
        Some terminated \<Rightarrow>
          if tReason terminated = ''Error'' then Some (tMessage terminated) else None
      | None \<Rightarrow> None)"

fun scanRunningState :: "ContainerStatus list \<Rightarrow> string option" where
  "scanRunningState [] = None"
| "scanRunningState (container # containers) =
     (case containerCrashLoop container of
        Some msg \<Rightarrow> Some msg
      | None \<Rightarrow>
          (case containerTerminatedError container of
             Some msg \<Rightarrow> Some msg
           | None \<Rightarrow> scanRunningState containers))"

fun scanRunningContainers :: "Pod list \<Rightarrow> string option" where
  "scanRunningContainers [] = None"
| "scanRunningContainers (pod # pods) =
     (if DeletionTimestamp pod \<noteq> None then scanRunningContainers pods
      else (case scanRunningState (podContainerStatuses pod) of
              Some msg \<Rightarrow> Some msg
            | None \<Rightarrow> scanRunningContainers pods))"

text \<open>
  Every hit of the scan runs the same two statements: the phase becomes Error and the
  ready condition is set to false with the error reason and the hit's message.
\<close>

definition failWith :: "string \<Rightarrow> Integration \<Rightarrow> Integration" where
  "failWith message integration =
     SetReadyConditionError message (integration\<lparr>Phase := IntegrationPhaseError\<rparr>)"

text \<open>The returned pair is the boolean result and the Integration as the call leaves it.\<close>

definition arePodsFailingStatuses ::
  "Integration \<Rightarrow> Pod list \<Rightarrow> Pod list \<Rightarrow> bool \<times> Integration" where
  "arePodsFailingStatuses integration pendingPods runningPods =
     (case scanScheduled pendingPods of
        Some msg \<Rightarrow> (True, failWith msg integration)
      | None \<Rightarrow>
          (case scanPendingContainers pendingPods of
             Some msg \<Rightarrow> (True, failWith msg integration)
           | None \<Rightarrow>
               (case scanRunningContainers runningPods of
                  Some msg \<Rightarrow> (True, failWith msg integration)
                | None \<Rightarrow> (False, integration))))"

subsection \<open>The failure signals, stated on the pods\<close>

definition isUnschedulable :: "Pod \<Rightarrow> bool" where
  "isUnschedulable pod =
     (case GetPodCondition pod PodScheduled of
        None \<Rightarrow> False
      | Some c \<Rightarrow> pcStatus c = ConditionFalse \<and> pcReason c = ''Unschedulable'')"

definition waitingWith :: "string \<Rightarrow> ContainerStatus \<Rightarrow> bool" where
  "waitingWith reason container =
     (case Waiting (State container) of None \<Rightarrow> False | Some w \<Rightarrow> wReason w = reason)"

definition terminatedWith :: "string \<Rightarrow> ContainerStatus \<Rightarrow> bool" where
  "terminatedWith reason container =
     (case Terminated (State container) of None \<Rightarrow> False | Some t \<Rightarrow> tReason t = reason)"

definition hasImagePullBackOff :: "Pod \<Rightarrow> bool" where
  "hasImagePullBackOff pod =
     (\<exists>container \<in> set (podContainerStatuses pod). waitingWith ''ImagePullBackOff'' container)"

definition hasCrashOrError :: "Pod \<Rightarrow> bool" where
  "hasCrashOrError pod =
     (\<exists>container \<in> set (podContainerStatuses pod).
        waitingWith ''CrashLoopBackOff'' container \<or> terminatedWith ''Error'' container)"

text \<open>
  What the scan looks for: an unschedulable pending pod, an image pull back-off in a
  pending pod, a crash loop or an Error termination in a running pod that is not being
  deleted.
\<close>

definition podsFailing :: "Pod list \<Rightarrow> Pod list \<Rightarrow> bool" where
  "podsFailing pendingPods runningPods =
     ((\<exists>pod \<in> set pendingPods. isUnschedulable pod) \<or>
      (\<exists>pod \<in> set pendingPods. hasImagePullBackOff pod) \<or>
      (\<exists>pod \<in> set runningPods. DeletionTimestamp pod = None \<and> hasCrashOrError pod))"

text \<open>
  The signals as the specification words them: the three container reasons count on
  every pod, pending or running and not being deleted.
\<close>

definition podsFailingAsSpecified :: "Pod list \<Rightarrow> Pod list \<Rightarrow> bool" where
  "podsFailingAsSpecified pendingPods runningPods =
     ((\<exists>pod \<in> set pendingPods. isUnschedulable pod) \<or>
      (\<exists>pod \<in> set (pendingPods @ filter (\<lambda>p. DeletionTimestamp p = None) runningPods).
         hasImagePullBackOff pod \<or> hasCrashOrError pod))"

text \<open>The messages carried by the statuses that the scan counts as failures.\<close>

definition offendingMessages :: "Pod list \<Rightarrow> Pod list \<Rightarrow> string set" where
  "offendingMessages pendingPods runningPods =
     {pcMessage c | pod c. pod \<in> set pendingPods \<and> GetPodCondition pod PodScheduled = Some c \<and>
        pcStatus c = ConditionFalse \<and> pcReason c = ''Unschedulable''} \<union>
     {wMessage w | pod container w. pod \<in> set pendingPods \<and>
        container \<in> set (podContainerStatuses pod) \<and> Waiting (State container) = Some w \<and>
        wReason w = ''ImagePullBackOff''} \<union>
     {wMessage w | pod container w. pod \<in> set runningPods \<and> DeletionTimestamp pod = None \<and>
        container \<in> set (podContainerStatuses pod) \<and> Waiting (State container) = Some w \<and>
        wReason w = ''CrashLoopBackOff''} \<union>
     {tMessage t | pod container t. pod \<in> set runningPods \<and> DeletionTimestamp pod = None \<and>
        container \<in> set (podContainerStatuses pod) \<and> Terminated (State container) = Some t \<and>
        tReason t = ''Error''}"

section \<open>Errors, panics and the collaborators of the action\<close>

text \<open>
  A Go error value: one made by \<open>fmt.Errorf\<close>, the context's deadline error, or a
  status error of the API server with its HTTP code. \<open>Error\<close> is the method
  \<open>err.Error()\<close>.
\<close>

datatype error = Errorf string | DeadlineExceeded | StatusError nat string

fun Error :: "error \<Rightarrow> string" where
  "Error (Errorf message) = message"
| "Error DeadlineExceeded = ''context deadline exceeded''"
| "Error (StatusError code message) = message"

definition isDeadlineExceeded :: "error \<Rightarrow> bool" where
  "isDeadlineExceeded err = (err = DeadlineExceeded)"

definition IsServiceUnavailable :: "error \<Rightarrow> bool" where
  "IsServiceUnavailable err = (case err of StatusError code _ \<Rightarrow> code = 503 | _ \<Rightarrow> False)"

text \<open>A call either panics (a nil pointer dereference) or returns.\<close>

datatype 'a go = Panic | Returns 'a

datatype ObjectType = Deployment | KnativeService | CronJob | OtherObject

record Object =
  objType :: ObjectType
  objName :: string

text \<open>
  The trait environment, as far as the monitor reads it: the resources produced by the
  traits and the name of the integration container.
\<close>

record Environment =
  envResources :: "Object list"
  GetIntegrationContainerName :: string

text \<open>
  The \<open>controller\<close> interface. Its three implementations are not among the sources, so
  a controller is the record of its methods. An implementation holds a pointer to the
  Integration (\<open>integration: integration\<close> in \<open>newController\<close>), so the two methods
  that reconcile may write to it: they take the Integration and return it. \<open>getPodSpec\<close>
  is never called by the monitor and is left out. The ready-pod counter only counts up
  from zero, so it is a natural number.
\<close>

record controller =
  checkReadyCondition :: "Integration \<Rightarrow> (bool \<times> error option) \<times> Integration"
  updateReadyCondition :: "nat \<Rightarrow> Integration \<Rightarrow> bool \<times> Integration"
  hasTemplateIntegrationLabel :: bool
  getControllerName :: string

datatype StorageType = StorageTypeConfigmap | StorageTypeSecret | StorageTypeOther

record Config =
  StorageTypeOf :: StorageType
  configName :: string

text \<open>
  The action with everything it calls outside the sources, as parameters: the API
  client (kit lookup, pod listing, resource versions, the proxied probe), the digest,
  the parsers, the selector constructor, the trait pipeline, the controller
  implementations and the two methods of \<open>v1.Integration\<close> that reset it.
  \<open>traitApply\<close> is \<open>trait.Apply\<close> as the monitor calls it, with the client and the
  kit, yielding the environment; the traits work on the Integration they are given, so
  it is returned as well.
\<close>

record monitorAction =
  GetIntegrationKit :: "string \<Rightarrow> string \<Rightarrow> error + IntegrationKit"
  ComputeForIntegration :: "Integration \<Rightarrow> string list \<Rightarrow> string list \<Rightarrow> error + string"
  ParseConfig :: "string \<Rightarrow> error + Config"
  LookupResourceVersion :: "string \<Rightarrow> string \<Rightarrow> string \<Rightarrow> string"
  NewRequirement :: "string \<Rightarrow> string \<Rightarrow> error option"
  lookupKitsForIntegration :: "Integration \<Rightarrow> string \<Rightarrow> error + IntegrationKit list"
  traitApply :: "Integration \<Rightarrow> IntegrationKit \<Rightarrow> (error + Environment) \<times> Integration"
  ListPods :: "string \<Rightarrow> string \<Rightarrow> string \<Rightarrow> error + Pod list"
  proxyGetHTTPProbe :: "Pod \<Rightarrow> Container \<Rightarrow> string \<times> error option"
  NewHealthCheck :: "string \<Rightarrow> error + HealthCheck"
  deploymentController :: "Object \<Rightarrow> controller"
  knativeServiceController :: "Object \<Rightarrow> controller"
  cronJobController :: "Object \<Rightarrow> controller"
  Initialize :: "Integration \<Rightarrow> Integration"
  SetIntegrationKit :: "IntegrationKit option \<Rightarrow> Integration \<Rightarrow> Integration"

section \<open>Kit priority selection\<close>

text \<open>
  \<open>strconv.Atoi\<close> of the Go standard library: an optional sign, then at least one
  decimal digit and nothing else; the value must fit a 64-bit \<open>int\<close>.
\<close>

definition isDigit :: "char \<Rightarrow> bool" where
  "isDigit c = (48 \<le> (of_char c :: nat) \<and> (of_char c :: nat) \<le> 57)"

fun digitsValue :: "int \<Rightarrow> string \<Rightarrow> int" where
  "digitsValue acc [] = acc"
| "digitsValue acc (c # cs) = digitsValue (acc * 10 + (int (of_char c) - 48)) cs"

definition splitSign :: "string \<Rightarrow> bool \<times> string" where
  "splitSign s =
     (case s of
        [] \<Rightarrow> (False, [])
      | c # cs \<Rightarrow>
          if c = CHR ''-'' then (True, cs)
          else if c = CHR ''+'' then (False, cs)
          else (False, s))"

definition Atoi :: "string \<Rightarrow> error + int" where
  "Atoi s =
     (case splitSign s of
        (neg, ds) \<Rightarrow>
          if ds = [] \<or> \<not> list_all isDigit ds
          then Inl (Errorf (''strconv.Atoi: parsing '' @ s @ '': invalid syntax''))
          else if neg \<and> digitsValue 0 ds > 2 ^ 63 \<or> \<not> neg \<and> digitsValue 0 ds > 2 ^ 63 - 1
          then Inl (Errorf (''strconv.Atoi: parsing '' @ s @ '': value out of range''))
          else Inr (if neg then - digitsValue 0 ds else digitsValue 0 ds))"

text \<open>Reading a Go map of strings at a key: the empty string when the key is absent.\<close>

definition mapGet :: "(string \<rightharpoonup> string) \<Rightarrow> string \<Rightarrow> string" where
  "mapGet m key = (case m key of None \<Rightarrow> [] | Some v \<Rightarrow> v)"

definition kitPriority :: "IntegrationKit \<Rightarrow> error + int" where
  "kitPriority k = Atoi (mapGet (kitLabels k) IntegrationKitPriorityLabel)"

text \<open>
  The loop of \<open>findHighestPriorityReadyKit\<close>, with its two variables \<open>kit\<close> and
  \<open>priority\<close>; the selected kit is returned by value.
\<close>

fun findHighestPriorityLoop ::
  "IntegrationKit list \<Rightarrow> IntegrationKit option \<Rightarrow> int \<Rightarrow> error + IntegrationKit option" where
  "findHighestPriorityLoop [] kit priority = Inr kit"
| "findHighestPriorityLoop (k # kits) kit priority =
     (if kitPhase k \<noteq> IntegrationKitPhaseReady then findHighestPriorityLoop kits kit priority
      else (case kitPriority k of
              Inl err \<Rightarrow> Inl err
            | Inr p \<Rightarrow>
                if p > priority then findHighestPriorityLoop kits (Some k) p
                else findHighestPriorityLoop kits kit priority))"

definition findHighestPriorityReadyKit ::
  "IntegrationKit list \<Rightarrow> error + IntegrationKit option" where
  "findHighestPriorityReadyKit kits =
     (if length kits = 0 then Inr None else findHighestPriorityLoop kits None 0)"

text \<open>
  Every Ready kit of the list carries a priority label that parses, and none of these
  priorities exceeds the bound.
\<close>

definition boundedBy :: "IntegrationKit list \<Rightarrow> int \<Rightarrow> bool" where
  "boundedBy kits q =
     (\<forall>k \<in> set kits. kitPhase k = IntegrationKitPhaseReady \<longrightarrow>
        (\<exists>p. kitPriority k = Inr p \<and> p \<le> q))"

section \<open>Digest check and rebuild\<close>

definition isInInitializationFailed :: "Integration \<Rightarrow> bool" where
  "isInInitializationFailed status =
     (if Phase status \<noteq> IntegrationPhaseError then False
      else (case GetCondition status IntegrationConditionReady of
              Some cond \<Rightarrow>
                icStatus cond = ConditionFalse \<and>
                icReason cond = IntegrationConditionInitializationFailedReason
            | None \<Rightarrow> False))"

definition isInIntegrationKitFailed :: "Integration \<Rightarrow> bool" where
  "isInIntegrationKitFailed status =
     (case GetCondition status IntegrationConditionKitAvailable of
        Some cond \<Rightarrow>
          icStatus cond = ConditionFalse \<and> Phase status \<noteq> IntegrationPhaseError
      | None \<Rightarrow> False)"

text \<open>
  Modelled from the spec: the three annotation getters are declared in
  \<open>pkg/apis/camel/v1\<close>, which is not among the sources. They read the operator
  identity, the integration-profile name and the integration-profile namespace
  annotation of an object, the empty string when it has none.
\<close>

definition GetOperatorIDAnnotation :: "(string \<rightharpoonup> string) \<Rightarrow> string" where
  "GetOperatorIDAnnotation annotations = mapGet annotations ''camel.apache.org/operator.id''"

definition GetIntegrationProfileAnnotation :: "(string \<rightharpoonup> string) \<Rightarrow> string" where
  "GetIntegrationProfileAnnotation annotations =
     mapGet annotations ''camel.apache.org/integration-profile.id''"

definition GetIntegrationProfileNamespaceAnnotation :: "(string \<rightharpoonup> string) \<Rightarrow> string" where
  "GetIntegrationProfileNamespaceAnnotation annotations =
     mapGet annotations ''camel.apache.org/integration-profile.namespace''"

definition isIntegrationKitResetRequired :: "Integration \<Rightarrow> IntegrationKit option \<Rightarrow> bool" where
  "isIntegrationKitResetRequired integration kit =
     (case kit of
        None \<Rightarrow> False
      | Some k \<Rightarrow>
          if GetOperatorIDAnnotation (Annotations integration) \<noteq> [] \<and>
             GetOperatorIDAnnotation (Annotations integration) \<noteq>
               GetOperatorIDAnnotation (kitAnnotations k)
          then True
          else if GetIntegrationProfileAnnotation (Annotations integration) \<noteq> [] \<and>
             GetIntegrationProfileAnnotation (Annotations integration) \<noteq>
               GetIntegrationProfileAnnotation (kitAnnotations k)
          then True
          else if GetIntegrationProfileNamespaceAnnotation (Annotations integration) \<noteq> [] \<and>
             GetIntegrationProfileNamespaceAnnotation (Annotations integration) \<noteq>
               GetIntegrationProfileNamespaceAnnotation (kitAnnotations k)
          then True
          else False)"

text \<open>
  The loop over the merged mount resources, with its two result slices \<open>configmaps\<close>
  and \<open>secrets\<close>. A resource that does not parse is skipped.
\<close>

fun resourceVersionsLoop ::
  "monitorAction \<Rightarrow> Integration \<Rightarrow> string list \<Rightarrow> string list \<Rightarrow> string list \<Rightarrow>
   string list \<times> string list" where
  "resourceVersionsLoop action integration [] configmaps secrets = (configmaps, secrets)"
| "resourceVersionsLoop action integration (c # cs) configmaps secrets =
     (case ParseConfig action c of
        Inl parseErr \<Rightarrow> resourceVersionsLoop action integration cs configmaps secrets
      | Inr conf \<Rightarrow>
          if StorageTypeOf conf = StorageTypeConfigmap
          then resourceVersionsLoop action integration cs
                 (configmaps @
                    [LookupResourceVersion action ''ConfigMap'' (Namespace integration) (configName conf)])
                 secrets
          else if StorageTypeOf conf = StorageTypeSecret
          then resourceVersionsLoop action integration cs configmaps
                 (secrets @
                    [LookupResourceVersion action ''Secret'' (Namespace integration) (configName conf)])
          else resourceVersionsLoop action integration cs configmaps secrets)"

definition BoolDeref :: "bool option \<Rightarrow> bool \<Rightarrow> bool" where
  "BoolDeref ptr def = (case ptr of None \<Rightarrow> def | Some b \<Rightarrow> b)"

text \<open>The result is the pair \<open>(secrets, configmaps)\<close>, in the order the source returns it.\<close>

definition getIntegrationSecretAndConfigmapResourceVersions ::
  "monitorAction \<Rightarrow> Integration \<Rightarrow> string list \<times> string list" where
  "getIntegrationSecretAndConfigmapResourceVersions action integration =
     (case SpecMount integration of
        None \<Rightarrow> ([], [])
      | Some mount \<Rightarrow>
          if BoolDeref (HotReload mount) False
          then (case resourceVersionsLoop action integration
                       (Configs mount @ Resources mount) [] [] of
                  (configmaps, secrets) \<Rightarrow> (secrets, configmaps))
          else ([], []))"

text \<open>
  A function of the action returns the Go pair (Integration pointer, error) together
  with the Integration as the call leaves it: every pointer the source returns is the
  pointer it was given, and the source writes through it.
\<close>

type_synonym handled = "(Integration option \<times> error option) \<times> Integration"

definition checkDigestAndRebuild ::
  "monitorAction \<Rightarrow> Integration \<Rightarrow> IntegrationKit option \<Rightarrow> handled" where
  "checkDigestAndRebuild action integration kit =
     (case getIntegrationSecretAndConfigmapResourceVersions action integration of
        (secrets, configmaps) \<Rightarrow>
          (case ComputeForIntegration action integration configmaps secrets of
             Inl err \<Rightarrow> ((None, Some err), integration)
           | Inr hash \<Rightarrow>
               if hash \<noteq> Digest integration
               then (let i1 = (if isIntegrationKitResetRequired integration kit
                               then SetIntegrationKit action None integration
                               else integration);
                         i2 = Initialize action i1;
                         i3 = i2\<lparr>Digest := hash\<rparr>
                     in ((Some i3, None), i3))
               else ((None, None), integration)))"

section \<open>Readiness probing\<close>

text \<open>Decimal rendering of a counter, as \<open>%d\<close> prints it.\<close>

fun digitChar :: "nat \<Rightarrow> char" where
  "digitChar d = char_of (48 + d)"

function showNat :: "nat \<Rightarrow> string" where
  "showNat n = (if n < 10 then [digitChar n] else showNat (n div 10) @ [digitChar (n mod 10)])"
  by pat_completeness auto
termination
  by (relation "measure id") auto

declare showNat.simps [simp del]

definition notReadyMessage :: "nat \<Rightarrow> nat \<Rightarrow> string" where
  "notReadyMessage unready ready =
     showNat unready @ ''/'' @ showNat (unready + ready) @ '' pods are not ready''"

definition timedOutMessage :: "Pod \<Rightarrow> string" where
  "timedOutMessage pod =
     ''readiness probe timed out for Pod '' @ podNamespace pod @ ''/'' @ podName pod"

definition probeFailedMessage :: "Pod \<Rightarrow> error \<Rightarrow> string" where
  "probeFailedMessage pod err =
     ''readiness probe failed for Pod '' @ podNamespace pod @ ''/'' @ podName pod @ '': '' @
     Error err"

definition getIntegrationContainer :: "Environment \<Rightarrow> Pod \<Rightarrow> Container option" where
  "getIntegrationContainer environment pod =
     find (\<lambda>container. cName container = GetIntegrationContainerName environment)
       (SpecContainers pod)"

text \<open>
  The variables of \<open>probeReadiness\<close> that its loop updates: the per-pod entries of the
  ready condition, the two counters and the two runtime flags.
\<close>

record probeState =
  psPods :: "IntegrationPodCondition list"
  readyPods :: nat
  unreadyPods :: nat
  runtimeReady :: bool
  runtimeFailed :: bool

definition zeroPodCondition :: PodCondition where
  "zeroPodCondition = \<lparr>pcType = [], pcStatus = [], pcReason = [], pcMessage = []\<rparr>"

definition zeroIntegrationPodCondition :: IntegrationPodCondition where
  "zeroIntegrationPodCondition =
     \<lparr>ipName = [], ipCondition = zeroPodCondition, ipHealth = []\<rparr>"

text \<open>
  Writing through \<open>readyCondition.Pods[i]\<close>. The slice has one entry per pod, so the
  index is in range wherever the loop uses it.
\<close>

definition updatePod ::
  "nat \<Rightarrow> (IntegrationPodCondition \<Rightarrow> IntegrationPodCondition) \<Rightarrow> probeState \<Rightarrow> probeState" where
  "updatePod i f s = s\<lparr>psPods := (psPods s)[i := f (psPods s ! i)]\<rparr>"

text \<open>The loop over the checks of a health report: every check that is not up is recorded.\<close>

fun recordChecks :: "nat \<Rightarrow> HealthCheckResponse list \<Rightarrow> probeState \<Rightarrow> probeState" where
  "recordChecks i [] s = s"
| "recordChecks i (check # checks) s =
     (if hcStatus check = HealthCheckStatusUp then recordChecks i checks s
      else recordChecks i checks
             (updatePod i (\<lambda>e. e\<lparr>ipHealth := ipHealth e @ [check]\<rparr>)
                (s\<lparr>runtimeReady := False, runtimeFailed := True\<rparr>)))"

text \<open>
  One iteration of the pod loop ends in a panic, in a return from the function with an
  error, or in the next iteration (\<open>continue\<close> or the end of the body).
\<close>

datatype probeStep = StepPanic | StepReturn nat bool error | StepNext probeState

definition probePod ::
  "monitorAction \<Rightarrow> Environment \<Rightarrow> Pod \<Rightarrow> nat \<Rightarrow> probeState \<Rightarrow> probeStep" where
  "probePod action environment pod i s0 =
     (let s1 = updatePod i (\<lambda>e. e\<lparr>ipName := podName pod\<rparr>) s0;
          s2 = (case find (\<lambda>c. pcType c = PodReady) (podConditions pod) of
                  Some c \<Rightarrow> updatePod i (\<lambda>e. e\<lparr>ipCondition := c\<rparr>) s1
                | None \<Rightarrow> s1)
      in case GetPodCondition pod PodReady of
           None \<Rightarrow> StepPanic
         | Some ready \<Rightarrow>
             if pcStatus ready = ConditionTrue
             then StepNext (s2\<lparr>readyPods := readyPods s2 + 1\<rparr>)
             else
               (let s3 = s2\<lparr>unreadyPods := unreadyPods s2 + 1\<rparr>
                in case getIntegrationContainer environment pod of
                     None \<Rightarrow>
                       StepReturn (readyPods s3) False
                         (Errorf (''integration container not found in Pod '' @
                                  podNamespace pod @ ''/'' @ podName pod))
                   | Some container \<Rightarrow>
                       (case ReadinessProbe container of
                          None \<Rightarrow> StepNext s3
                        | Some probe \<Rightarrow>
                            if HTTPGet probe = None then StepNext s3
                            else
                              (case proxyGetHTTPProbe action pod container of
                                 (body, None) \<Rightarrow> StepNext s3
                               | (body, Some err) \<Rightarrow>
                                   if isDeadlineExceeded err
                                   then StepNext
                                          ((updatePod i
                                              (\<lambda>e. e\<lparr>ipCondition :=
                                                 (ipCondition e)\<lparr>pcMessage := timedOutMessage pod\<rparr>\<rparr>)
                                              s3)\<lparr>runtimeReady := False\<rparr>)
                                   else if \<not> IsServiceUnavailable err
                                   then StepNext
                                          ((updatePod i
                                              (\<lambda>e. e\<lparr>ipCondition :=
                                                 (ipCondition e)\<lparr>pcMessage := probeFailedMessage pod err\<rparr>\<rparr>)
                                              s3)\<lparr>runtimeReady := False\<rparr>)
                                   else
                                     (case NewHealthCheck action body of
                                        Inl err' \<Rightarrow> StepReturn (readyPods s3) False err'
                                      | Inr health \<Rightarrow>
                                          StepNext (recordChecks i (Checks health) s3))))))"

fun probeLoop ::
  "monitorAction \<Rightarrow> Environment \<Rightarrow> Pod list \<Rightarrow> nat \<Rightarrow> probeState \<Rightarrow> probeStep" where
  "probeLoop action environment [] i s = StepNext s"
| "probeLoop action environment (pod # pods) i s =
     (case probePod action environment pod i s of
        StepNext s' \<Rightarrow> probeLoop action environment pods (i + 1) s'
      | StepPanic \<Rightarrow> StepPanic
      | StepReturn n ok err \<Rightarrow> StepReturn n ok err)"

definition initialProbeState :: "Pod list \<Rightarrow> probeState" where
  "initialProbeState pods =
     \<lparr>psPods = replicate (length pods) zeroIntegrationPodCondition,
      readyPods = 0, unreadyPods = 0, runtimeReady = True, runtimeFailed = False\<rparr>"

text \<open>The ready condition as the two blocks after the loop fill it in.\<close>

definition notReadyCondition :: "string \<Rightarrow> probeState \<Rightarrow> IntegrationCondition" where
  "notReadyCondition reason s =
     \<lparr>icType = IntegrationConditionReady, icStatus = ConditionFalse, icReason = reason,
      icMessage = notReadyMessage (unreadyPods s) (readyPods s), icPods = psPods s\<rparr>"

definition reportProbe :: "probeState \<Rightarrow> Integration \<Rightarrow> bool \<times> Integration" where
  "reportProbe s integration =
     (let (ok1, i1) =
            (if runtimeFailed s
             then (False, SetConditions (notReadyCondition IntegrationConditionErrorReason s)
                            integration)
             else (True, integration))
      in if \<not> runtimeReady s
         then (False, SetConditions (notReadyCondition IntegrationConditionRuntimeNotReadyReason s) i1)
         else (ok1, i1))"

text \<open>
  \<open>probeReadiness\<close> returns the number of ready pods, whether the probe is fine and an
  error, and leaves the Integration with or without a new ready condition.
\<close>

definition probeReadiness ::
  "monitorAction \<Rightarrow> Environment \<Rightarrow> Integration \<Rightarrow> Pod list \<Rightarrow>
   ((nat \<times> bool \<times> error option) \<times> Integration) go" where
  "probeReadiness action environment integration pods =
     (case probeLoop action environment pods 0 (initialProbeState pods) of
        StepPanic \<Rightarrow> Panic
      | StepReturn n ok err \<Rightarrow> Returns ((n, ok, Some err), integration)
      | StepNext s \<Rightarrow>
          (case reportProbe s integration of
             (probeReadinessOk, integration') \<Rightarrow>
               Returns ((readyPods s, probeReadinessOk, None), integration')))"




section \<open>Phase and ready condition reconciliation\<close>

text \<open>The result is the returned error and the Integration as the call leaves it.\<close>

definition updateIntegrationPhaseAndReadyCondition ::
  "monitorAction \<Rightarrow> controller \<Rightarrow> Environment \<Rightarrow> Integration \<Rightarrow> Pod list \<Rightarrow> Pod list \<Rightarrow>
   (error option \<times> Integration) go" where
  "updateIntegrationPhaseAndReadyCondition action controller environment integration
       pendingPods runningPods =
     (case checkReadyCondition controller integration of
        ((done, err), i1) \<Rightarrow>
          if done \<or> err \<noteq> None
          then (case probeReadiness action environment i1 runningPods of
                  Panic \<Rightarrow> Panic
                | Returns (ignored, i2) \<Rightarrow> Returns (err, i2))
          else
            (case arePodsFailingStatuses i1 pendingPods runningPods of
               (True, i2) \<Rightarrow> Returns (None, i2)
             | (False, i2) \<Rightarrow>
                 (case probeReadiness action environment i2 runningPods of
                    Panic \<Rightarrow> Panic
                  | Returns ((ready, probeOk, Some err'), i3) \<Rightarrow> Returns (Some err', i3)
                  | Returns ((ready, probeOk, None), i3) \<Rightarrow>
                      if \<not> probeOk
                      then Returns (None, i3\<lparr>Phase := IntegrationPhaseError\<rparr>)
                      else (case updateReadyCondition controller ready i3 of
                              (done', i4) \<Rightarrow>
                                if done'
                                then Returns (None, i4\<lparr>Phase := IntegrationPhaseRunning\<rparr>)
                                else Returns (None, i4)))))"

section \<open>Controller resolution and pod monitoring\<close>

text \<open>
  Modelled from the spec: \<open>Resources.GetController\<close> belongs to the resource collection
  of \<open>pkg/util/kubernetes\<close>, which is not among the sources. The collection is an
  ordered sequence queried by a type predicate to retrieve the controller object;
  the result is nil when no object matches.
\<close>

definition getUpdatedController :: "Environment \<Rightarrow> ObjectType \<Rightarrow> Object option" where
  "getUpdatedController env ty = find (\<lambda>object. objType object = ty) (envResources env)"

text \<open>
  A nil result of the lookup fails the type assertion of the chosen case, so the
  check \<open>obj == nil\<close> after the switch is never reached with a nil object.
\<close>

definition newController ::
  "monitorAction \<Rightarrow> Environment \<Rightarrow> Integration \<Rightarrow> error + controller" where
  "newController action env integration =
     (if IsConditionTrue integration IntegrationConditionDeploymentAvailable
      then (case getUpdatedController env Deployment of
              None \<Rightarrow> Inl (Errorf ''type assertion failed, not a Deployment: <nil>'')
            | Some obj \<Rightarrow> Inr (deploymentController action obj))
      else if IsConditionTrue integration IntegrationConditionKnativeServiceAvailable
      then (case getUpdatedController env KnativeService of
              None \<Rightarrow> Inl (Errorf ''type assertion failed, not a Knative Service: <nil>'')
            | Some obj \<Rightarrow> Inr (knativeServiceController action obj))
      else if IsConditionTrue integration IntegrationConditionCronJobAvailable
      then (case getUpdatedController env CronJob of
              None \<Rightarrow> Inl (Errorf ''type assertion failed, not a CronJob: <nil>'')
            | Some obj \<Rightarrow> Inr (cronJobController action obj))
      else Inl (Errorf (''unsupported controller for integration '' @ Name integration)))"

definition monitoringUnavailableMessage :: "Integration \<Rightarrow> controller \<Rightarrow> string" where
  "monitoringUnavailableMessage integration controller =
     ''Could not find `camel.apache.org/integration: '' @ Name integration @
     ''` label in the '' @ getControllerName controller @
     '' template. Make sure to include this label in the template for Pod monitoring purposes.''"

definition monitorPods :: "monitorAction \<Rightarrow> Environment \<Rightarrow> Integration \<Rightarrow> handled go" where
  "monitorPods action environment integration =
     (case newController action environment integration of
        Inl err \<Rightarrow> Returns ((None, Some err), integration)
      | Inr controller \<Rightarrow>
          if \<not> hasTemplateIntegrationLabel controller
          then (let i1 = SetConditions
                           \<lparr>icType = IntegrationConditionReady, icStatus = ConditionFalse,
                            icReason = IntegrationConditionMonitoringPodsAvailableReason,
                            icMessage = monitoringUnavailableMessage integration controller,
                            icPods = []\<rparr> integration
                in Returns ((Some i1, None), i1))
          else
            (let i1 = integration\<lparr>Selector := IntegrationLabel @ ''='' @ Name integration\<rparr>
             in case ListPods action (Namespace i1) (Name i1) PodPending of
                  Inl err \<Rightarrow> Returns ((None, Some err), i1)
                | Inr pendingPods \<Rightarrow>
                    (case ListPods action (Namespace i1) (Name i1) PodRunning of
                       Inl err \<Rightarrow> Returns ((None, Some err), i1)
                     | Inr runningPods \<Rightarrow>
                         (let nonTerminatingPods =
                                length (filter (\<lambda>pod. DeletionTimestamp pod = None) runningPods);
                              podCount = (of_nat (length pendingPods + nonTerminatingPods) :: 32 word);
                              i2 = i1\<lparr>Replicas := Some podCount\<rparr>;
                              i3 = (if Phase i2 = IntegrationPhaseDeploying
                                    then i2\<lparr>Phase := IntegrationPhaseRunning\<rparr> else i2)
                          in case updateIntegrationPhaseAndReadyCondition action controller
                                    environment i3 pendingPods runningPods of
                               Panic \<Rightarrow> Panic
                             | Returns (Some err, i4) \<Rightarrow> Returns ((None, Some err), i4)
                             | Returns (None, i4) \<Rightarrow> Returns ((Some i4, None), i4)))))"

section \<open>The monitor action\<close>

definition CanHandle :: "Integration \<Rightarrow> bool" where
  "CanHandle integration =
     (Phase integration = IntegrationPhaseDeploying \<or>
      Phase integration = IntegrationPhaseRunning \<or>
      Phase integration = IntegrationPhaseError)"

text \<open>The part of \<open>Handle\<close> that follows the digest check, from the kit upgrade on.\<close>

definition upgradeKitAndMonitor ::
  "monitorAction \<Rightarrow> Integration \<Rightarrow> IntegrationKit \<Rightarrow> handled go" where
  "upgradeKitAndMonitor action integration kit =
     (let priority = (case kitLabels kit IntegrationKitPriorityLabel of
                        None \<Rightarrow> ''0'' | Some p \<Rightarrow> p)
      in case NewRequirement action IntegrationKitPriorityLabel priority of
           Some err \<Rightarrow> Returns ((None, Some err), integration)
         | None \<Rightarrow>
             (case lookupKitsForIntegration action integration priority of
                Inl err \<Rightarrow> Returns ((None, Some err), integration)
              | Inr kits \<Rightarrow>
                  (case findHighestPriorityReadyKit kits of
                     Inl err \<Rightarrow> Returns ((None, Some err), integration)
                   | Inr priorityReadyKit \<Rightarrow>
                       (let i1 = (case priorityReadyKit of
                                    None \<Rightarrow> integration
                                  | Some k \<Rightarrow> SetIntegrationKit action (Some k) integration)
                        in case traitApply action i1 kit of
                             (Inl err, i2) \<Rightarrow>
                               (let i3 = SetReadyCondition ConditionFalse
                                           IntegrationConditionInitializationFailedReason (Error err)
                                           (i2\<lparr>Phase := IntegrationPhaseError\<rparr>)
                                in Returns ((Some i3, Some err), i3))
                           | (Inr environment, i2) \<Rightarrow> monitorPods action environment i2))))"

definition Handle :: "monitorAction \<Rightarrow> Integration \<Rightarrow> handled go" where
  "Handle action integration =
     (if isInInitializationFailed integration
      then Returns (checkDigestAndRebuild action integration None)
      else
        (case IntegrationKit integration of
           None \<Rightarrow>
             Returns ((None, Some (Errorf (''no kit set on integration '' @ Name integration))),
                      integration)
         | Some ref \<Rightarrow>
             (case GetIntegrationKit action (refName ref) (refNamespace ref) of
                Inl err \<Rightarrow>
                  Returns ((None, Some (Errorf (''unable to find integration kit '' @
                              refNamespace ref @ ''/'' @ refName ref @ '': '' @ Error err))),
                           integration)
              | Inr kit \<Rightarrow>
                  if isInIntegrationKitFailed integration \<and>
                     kitPhase kit = IntegrationKitPhaseError
                  then Returns ((None, None), integration)
                  else
                    (case checkDigestAndRebuild action integration (Some kit) of
                       ((changed, Some err), i1) \<Rightarrow> Returns ((None, Some err), i1)
                     | ((Some changed, None), i1) \<Rightarrow> Returns ((Some changed, None), i1)
                     | ((None, None), i1) \<Rightarrow> upgradeKitAndMonitor action i1 kit))))"

section \<open>Example objects\<close>

definition exampleIntegration :: Integration where
  "exampleIntegration =
     \<lparr>Name = ''routes'', Namespace = ''prod'', Annotations = Map.empty, SpecMount = None,
      SpecRest = ''from:timer'', Phase = IntegrationPhaseDeploying, Digest = ''from:timer'',
      Replicas = None, Selector = [], Conditions = [],
      IntegrationKit = Some \<lparr>refNamespace = ''prod'', refName = ''kit-a''\<rparr>\<rparr>"

definition examplePod :: Pod where
  "examplePod =
     \<lparr>podName = ''routes-1'', podNamespace = ''prod'', DeletionTimestamp = None,
      SpecContainers = [\<lparr>cName = ''integration'',
         ReadinessProbe = Some \<lparr>HTTPGet = Some \<lparr>Path = ''/q/health/ready'', Port = ''8080''\<rparr>\<rparr>\<rparr>],
      podConditions = [], InitContainerStatuses = [], ContainerStatuses = []\<rparr>"

definition unschedulablePod :: Pod where
  "unschedulablePod =
     examplePod\<lparr>podConditions :=
       [\<lparr>pcType = PodScheduled, pcStatus = ConditionFalse, pcReason = ''Unschedulable'',
         pcMessage = ''0/3 nodes are available''\<rparr>]\<rparr>"

definition crashLoopPod :: Pod where
  "crashLoopPod =
     examplePod\<lparr>ContainerStatuses :=
       [\<lparr>csName = ''integration'',
         State = \<lparr>Waiting = Some \<lparr>wReason = ''CrashLoopBackOff'', wMessage = ''back-off restarting''\<rparr>,
                  Terminated = None\<rparr>\<rparr>]\<rparr>"

definition readyPod :: Pod where
  "readyPod =
     examplePod\<lparr>podConditions :=
       [\<lparr>pcType = PodReady, pcStatus = ConditionTrue, pcReason = [], pcMessage = []\<rparr>]\<rparr>"

definition unreadyPod :: Pod where
  "unreadyPod =
     examplePod\<lparr>podConditions :=
       [\<lparr>pcType = PodReady, pcStatus = ConditionFalse, pcReason = ''ContainersNotReady'',
         pcMessage = ''containers with unready status: [integration]''\<rparr>]\<rparr>"

definition terminatedErrorPod :: Pod where
  "terminatedErrorPod =
     readyPod\<lparr>ContainerStatuses :=
       [\<lparr>csName = ''sidecar'',
         State = \<lparr>Waiting = None,
                  Terminated = Some \<lparr>tReason = ''Error'', tMessage = ''exit code 1''\<rparr>\<rparr>\<rparr>]\<rparr>"

definition downCheck :: HealthCheckResponse where
  "downCheck = \<lparr>hcName = ''camel-routes'', hcStatus = ''DOWN'',
                 hcData = [(''route.id'', ''route1'')]\<rparr>"

definition exampleKit :: "string \<Rightarrow> string \<Rightarrow> string \<Rightarrow> IntegrationKit" where
  "exampleKit name priority phase =
     \<lparr>kitName = name, kitNamespace = ''prod'',
      kitLabels = [IntegrationKitPriorityLabel \<mapsto> priority],
      kitAnnotations = Map.empty, kitPhase = phase\<rparr>"

definition exampleEnvironment :: Environment where
  "exampleEnvironment =
     \<lparr>envResources = [\<lparr>objType = Deployment, objName = ''routes''\<rparr>],
      GetIntegrationContainerName = ''integration''\<rparr>"

text \<open>
  A controller that never short-circuits, is satisfied by one ready pod and records
  its verdict in the ready condition.
\<close>

definition exampleController :: controller where
  "exampleController =
     \<lparr>checkReadyCondition = (\<lambda>integration. ((False, None), integration)),
      updateReadyCondition = (\<lambda>ready integration.
         if 1 \<le> ready
         then (True, SetReadyCondition ConditionTrue ''DeploymentReady'' [] integration)
         else (False, SetReadyCondition ConditionFalse ''DeploymentProgressing'' [] integration)),
      hasTemplateIntegrationLabel = True,
      getControllerName = ''Deployment/routes''\<rparr>"

definition exampleAction :: monitorAction where
  "exampleAction =
     \<lparr>GetIntegrationKit = (\<lambda>name namespace.
         if name = ''kit-a'' \<and> namespace = ''prod''
         then Inr (exampleKit ''kit-a'' ''0'' IntegrationKitPhaseError)
         else Inl (StatusError 404 ''not found'')),
      ComputeForIntegration = (\<lambda>integration configmaps secrets.
         Inr (SpecRest integration @ concat configmaps @ concat secrets)),
      ParseConfig = (\<lambda>c. Inl (Errorf ''cannot parse'')),
      LookupResourceVersion = (\<lambda>kind namespace name. ''1''),
      NewRequirement = (\<lambda>key priority. None),
      lookupKitsForIntegration = (\<lambda>integration priority. Inr []),
      traitApply = (\<lambda>integration kit. (Inr exampleEnvironment, integration)),
      ListPods = (\<lambda>namespace name phase. if phase = PodRunning then Inr [readyPod] else Inr []),
      proxyGetHTTPProbe = (\<lambda>pod container. ([], None)),
      NewHealthCheck = (\<lambda>body. Inr \<lparr>hStatus = ''DOWN'', Checks = [downCheck]\<rparr>),
      deploymentController = (\<lambda>obj. exampleController),
      knativeServiceController = (\<lambda>obj. exampleController),
      cronJobController = (\<lambda>obj. exampleController),
      Initialize = (\<lambda>integration.
         integration\<lparr>Phase := ''Initialization'', Digest := [], Replicas := None,
                      Selector := [], Conditions := [], IntegrationKit := None\<rparr>),
      SetIntegrationKit = (\<lambda>kit integration.
         integration\<lparr>IntegrationKit :=
           map_option (\<lambda>k. \<lparr>refNamespace = kitNamespace k, refName = kitName k\<rparr>) kit\<rparr>)\<rparr>"

definition plainCondition :: "string \<Rightarrow> ConditionStatus \<Rightarrow> IntegrationCondition" where
  "plainCondition condType status =
     \<lparr>icType = condType, icStatus = status, icReason = [], icMessage = [], icPods = []\<rparr>"

definition deployedIntegration :: Integration where
  "deployedIntegration =
     exampleIntegration\<lparr>Conditions :=
       [plainCondition IntegrationConditionDeploymentAvailable ConditionTrue]\<rparr>"

definition kitFailedIntegration :: Integration where
  "kitFailedIntegration =
     exampleIntegration\<lparr>Conditions :=
       [plainCondition IntegrationConditionKitAvailable ConditionFalse]\<rparr>"

definition errorPhaseIntegration :: Integration where
  "errorPhaseIntegration =
     exampleIntegration\<lparr>Phase := IntegrationPhaseError, Conditions :=
       [plainCondition IntegrationConditionKitAvailable ConditionFalse,
        plainCondition IntegrationConditionDeploymentAvailable ConditionTrue]\<rparr>"


definition unlabelledAction :: monitorAction where
  "unlabelledAction =
     exampleAction\<lparr>deploymentController :=
       (\<lambda>obj. exampleController\<lparr>hasTemplateIntegrationLabel := False\<rparr>)\<rparr>"


definition unavailableAction :: monitorAction where
  "unavailableAction =
     exampleAction\<lparr>proxyGetHTTPProbe :=
       (\<lambda>pod container. (''DOWN'', Some (StatusError 503 ''service unavailable'')))\<rparr>"

definition terminatedErrorAction :: monitorAction where
  "terminatedErrorAction =
     exampleAction\<lparr>ListPods :=
       (\<lambda>namespace name phase.
          if phase = PodRunning then Inr [terminatedErrorPod] else Inr [])\<rparr>"

definition failingCheckAction :: monitorAction where
  "failingCheckAction =
     exampleAction\<lparr>deploymentController :=
       (\<lambda>obj. exampleController\<lparr>checkReadyCondition :=
          (\<lambda>integration. ((False, Some (StatusError 500 ''cannot list jobs'')), integration))\<rparr>)\<rparr>"

text \<open>Reading the outcome of a call: the phase it leaves, and the error it returns.\<close>

definition finalPhase :: "handled go \<Rightarrow> string option" where
  "finalPhase r = (case r of Panic \<Rightarrow> None | Returns (ret, integration) \<Rightarrow> Some (Phase integration))"

definition returnedError :: "handled go \<Rightarrow> error option" where
  "returnedError r = (case r of Panic \<Rightarrow> None | Returns ((ptr, err), integration) \<Rightarrow> err)"

definition probeResult ::
  "((nat \<times> bool \<times> error option) \<times> Integration) go \<Rightarrow> (nat \<times> bool \<times> error option) option" where
  "probeResult r = (case r of Panic \<Rightarrow> None | Returns (res, integration) \<Rightarrow> Some res)"

definition readyConditionAfter ::
  "((nat \<times> bool \<times> error option) \<times> Integration) go \<Rightarrow> IntegrationCondition option" where
  "readyConditionAfter r =
     (case r of
        Panic \<Rightarrow> None
      | Returns (res, integration) \<Rightarrow> GetCondition integration IntegrationConditionReady)"

section \<open>Properties of the pod failure scan\<close>

lemma scanScheduled_None:
  "(scanScheduled pods = None) = (\<not> (\<exists>pod \<in> set pods. isUnschedulable pod))"
  by (induction pods) (auto simp: isUnschedulable_def split: option.splits)

lemma scanScheduled_Some:
  "scanScheduled pods = Some msg \<Longrightarrow>
     \<exists>pod \<in> set pods. \<exists>c. GetPodCondition pod PodScheduled = Some c \<and>
        pcStatus c = ConditionFalse \<and> pcReason c = ''Unschedulable'' \<and> pcMessage c = msg"
  by (induction pods) (auto split: option.splits if_splits)

lemma scanImagePull_None:
  "(scanImagePull cs = None) = (\<not> (\<exists>c \<in> set cs. waitingWith ''ImagePullBackOff'' c))"
  by (induction cs) (auto simp: waitingWith_def split: option.splits)

lemma scanImagePull_Some:
  "scanImagePull cs = Some msg \<Longrightarrow>
     \<exists>c \<in> set cs. \<exists>w. Waiting (State c) = Some w \<and> wReason w = ''ImagePullBackOff'' \<and>
        wMessage w = msg"
  by (induction cs) (auto split: option.splits if_splits)

lemma scanImagePull_hit:
  "scanImagePull cs = Some msg \<Longrightarrow> \<exists>c \<in> set cs. waitingWith ''ImagePullBackOff'' c"
  using scanImagePull_None [of cs] by simp

lemma scanPendingContainers_None:
  "(scanPendingContainers pods = None) = (\<not> (\<exists>pod \<in> set pods. hasImagePullBackOff pod))"
  by (induction pods)
     (auto simp: hasImagePullBackOff_def scanImagePull_None split: option.splits
        dest: scanImagePull_hit)

lemma scanPendingContainers_Some:
  "scanPendingContainers pods = Some msg \<Longrightarrow>
     \<exists>pod \<in> set pods. \<exists>c \<in> set (podContainerStatuses pod). \<exists>w.
        Waiting (State c) = Some w \<and> wReason w = ''ImagePullBackOff'' \<and> wMessage w = msg"
  by (induction pods) (auto split: option.splits dest: scanImagePull_Some)

lemma scanRunningState_None:
  "(scanRunningState cs = None) =
     (\<not> (\<exists>c \<in> set cs. waitingWith ''CrashLoopBackOff'' c \<or> terminatedWith ''Error'' c))"
  by (induction cs)
     (auto simp: waitingWith_def terminatedWith_def containerCrashLoop_def
        containerTerminatedError_def split: option.splits if_splits)

lemma scanRunningState_Some:
  "scanRunningState cs = Some msg \<Longrightarrow>
     \<exists>c \<in> set cs.
       (\<exists>w. Waiting (State c) = Some w \<and> wReason w = ''CrashLoopBackOff'' \<and> wMessage w = msg) \<or>
       (\<exists>t. Terminated (State c) = Some t \<and> tReason t = ''Error'' \<and> tMessage t = msg)"
  by (induction cs)
     (auto simp: containerCrashLoop_def containerTerminatedError_def
        split: option.splits if_splits)

lemma scanRunningState_hit:
  "scanRunningState cs = Some msg \<Longrightarrow>
     \<exists>c \<in> set cs. waitingWith ''CrashLoopBackOff'' c \<or> terminatedWith ''Error'' c"
  using scanRunningState_None [of cs] by simp

lemma scanRunningContainers_None:
  "(scanRunningContainers pods = None) =
     (\<not> (\<exists>pod \<in> set pods. DeletionTimestamp pod = None \<and> hasCrashOrError pod))"
  by (induction pods)
     (auto simp: hasCrashOrError_def scanRunningState_None split: option.splits
        dest: scanRunningState_hit)

lemma scanRunningContainers_Some:
  "scanRunningContainers pods = Some msg \<Longrightarrow>
     \<exists>pod \<in> set pods. DeletionTimestamp pod = None \<and> (\<exists>c \<in> set (podContainerStatuses pod).
       (\<exists>w. Waiting (State c) = Some w \<and> wReason w = ''CrashLoopBackOff'' \<and> wMessage w = msg) \<or>
       (\<exists>t. Terminated (State c) = Some t \<and> tReason t = ''Error'' \<and> tMessage t = msg))"
  by (induction pods) (auto split: option.splits if_splits dest: scanRunningState_Some)

lemma find_filter_append_new:
  "P x \<Longrightarrow> find P (filter (\<lambda>c. \<not> P c) xs @ [x]) = Some x"
  by (induction xs) auto

lemma GetCondition_SetConditions:
  "GetCondition (SetConditions condition integration) (icType condition) = Some condition"
  using find_filter_append_new
    [of "\<lambda>c. icType c = icType condition" condition "Conditions integration"]
  by (simp add: GetCondition_def SetConditions_def)

lemma failWith_Phase: "Phase (failWith msg integration) = IntegrationPhaseError"
  by (simp add: failWith_def SetReadyConditionError_def SetReadyCondition_def SetConditions_def)

lemma failWith_ready:
  "GetCondition (failWith msg integration) IntegrationConditionReady =
     Some \<lparr>icType = IntegrationConditionReady, icStatus = ConditionFalse,
           icReason = IntegrationConditionErrorReason, icMessage = msg, icPods = []\<rparr>"
  using GetCondition_SetConditions
    [of "\<lparr>icType = IntegrationConditionReady, icStatus = ConditionFalse,
          icReason = IntegrationConditionErrorReason, icMessage = msg, icPods = []\<rparr>"]
  by (simp add: failWith_def SetReadyConditionError_def SetReadyCondition_def)

lemma arePodsFailingStatuses_result:
  "fst (arePodsFailingStatuses integration pendingPods runningPods) =
     podsFailing pendingPods runningPods"
  using scanScheduled_None [of pendingPods] scanPendingContainers_None [of pendingPods]
    scanRunningContainers_None [of runningPods]
  by (auto simp: arePodsFailingStatuses_def podsFailing_def split: option.splits)

lemma arePodsFailingStatuses_effect:
  "arePodsFailingStatuses integration pendingPods runningPods = (False, integration) \<or>
   (\<exists>msg \<in> offendingMessages pendingPods runningPods.
      arePodsFailingStatuses integration pendingPods runningPods = (True, failWith msg integration))"
proof (cases "scanScheduled pendingPods")
  case (Some msg)
  from scanScheduled_Some [OF this] have "msg \<in> offendingMessages pendingPods runningPods"
    unfolding offendingMessages_def by blast
  with Some show ?thesis by (auto simp: arePodsFailingStatuses_def)
next
  case n1: None
  show ?thesis
  proof (cases "scanPendingContainers pendingPods")
    case (Some msg)
    from scanPendingContainers_Some [OF this]
    have "msg \<in> offendingMessages pendingPods runningPods"
      unfolding offendingMessages_def by blast
    with n1 Some show ?thesis by (auto simp: arePodsFailingStatuses_def)
  next
    case n2: None
    show ?thesis
    proof (cases "scanRunningContainers runningPods")
      case (Some msg)
      from scanRunningContainers_Some [OF this]
      have "msg \<in> offendingMessages pendingPods runningPods"
        unfolding offendingMessages_def by blast
      with n1 n2 Some show ?thesis by (auto simp: arePodsFailingStatuses_def)
    next
      case None
      with n1 n2 show ?thesis by (simp add: arePodsFailingStatuses_def)
    qed
  qed
qed

text \<open>
  Claim C1, as the code has it. \<open>arePodsFailingStatuses\<close> returns true exactly when a
  pending pod is unschedulable (its PodScheduled condition is false with reason
  Unschedulable), or a container (init or main) of a pending pod waits with reason
  ImagePullBackOff, or a container (init or main) of a running pod that is not being
  deleted waits with reason CrashLoopBackOff or is terminated with reason Error. In that
  case the phase is Error and the ready condition is false with the error reason and a
  message copied from one of those statuses; in every other case the Integration is
  left as it was.
\<close>

theorem arePodsFailingStatuses_exactly:
  "fst (arePodsFailingStatuses integration pendingPods runningPods) =
     podsFailing pendingPods runningPods \<and>
   (podsFailing pendingPods runningPods \<longrightarrow>
      Phase (snd (arePodsFailingStatuses integration pendingPods runningPods)) =
        IntegrationPhaseError \<and>
      (\<exists>msg \<in> offendingMessages pendingPods runningPods.
         GetCondition (snd (arePodsFailingStatuses integration pendingPods runningPods))
           IntegrationConditionReady =
         Some \<lparr>icType = IntegrationConditionReady, icStatus = ConditionFalse,
               icReason = IntegrationConditionErrorReason, icMessage = msg, icPods = []\<rparr>)) \<and>
   (\<not> podsFailing pendingPods runningPods \<longrightarrow>
      snd (arePodsFailingStatuses integration pendingPods runningPods) = integration)"
proof -
  let ?r = "arePodsFailingStatuses integration pendingPods runningPods"
  have res: "fst ?r = podsFailing pendingPods runningPods"
    by (rule arePodsFailingStatuses_result)
  from arePodsFailingStatuses_effect [of integration pendingPods runningPods]
  consider (quiet) "?r = (False, integration)"
    | (hit) msg where "msg \<in> offendingMessages pendingPods runningPods"
        "?r = (True, failWith msg integration)"
    by blast
  then show ?thesis
  proof cases
    case quiet
    with res show ?thesis by simp
  next
    case hit
    from hit(2) res have "podsFailing pendingPods runningPods" by simp
    moreover from hit(2) have "Phase (snd ?r) = IntegrationPhaseError"
      by (simp add: failWith_Phase)
    moreover from hit have "\<exists>msg \<in> offendingMessages pendingPods runningPods.
         GetCondition (snd ?r) IntegrationConditionReady =
         Some \<lparr>icType = IntegrationConditionReady, icStatus = ConditionFalse,
               icReason = IntegrationConditionErrorReason, icMessage = msg, icPods = []\<rparr>"
      using failWith_ready [of msg integration] by auto
    ultimately show ?thesis using res by simp
  qed
qed

theorem arePodsFailingStatuses_exactly_witness:
  "podsFailing [unschedulablePod] [] \<and>
   fst (arePodsFailingStatuses exampleIntegration [unschedulablePod] []) \<and>
   Phase (snd (arePodsFailingStatuses exampleIntegration [unschedulablePod] [])) =
     IntegrationPhaseError \<and>
   \<not> podsFailing [] [examplePod] \<and>
   snd (arePodsFailingStatuses exampleIntegration [] [examplePod]) = exampleIntegration"
proof -
  have a: "podsFailing [unschedulablePod] []"
    by (simp add: podsFailing_def isUnschedulable_def GetPodCondition_def
          unschedulablePod_def examplePod_def)
  have b: "\<not> podsFailing [] [examplePod]"
    by (simp add: podsFailing_def hasCrashOrError_def podContainerStatuses_def examplePod_def)
  from a b arePodsFailingStatuses_exactly [of exampleIntegration "[unschedulablePod]" "[]"]
    arePodsFailingStatuses_exactly [of exampleIntegration "[]" "[examplePod]"]
  show ?thesis by simp
qed

text \<open>
  The claim as the specification words it fails: a pending pod whose container waits
  with reason CrashLoopBackOff carries one of the specified signals, and the scan
  returns false on it.
\<close>

theorem arePodsFailingStatuses_pending_crash_loop:
  "podsFailingAsSpecified [crashLoopPod] [] \<and>
   arePodsFailingStatuses exampleIntegration [crashLoopPod] [] = (False, exampleIntegration)"
  by (simp add: podsFailingAsSpecified_def hasCrashOrError_def hasImagePullBackOff_def
        waitingWith_def terminatedWith_def podContainerStatuses_def isUnschedulable_def
        arePodsFailingStatuses_def GetPodCondition_def crashLoopPod_def examplePod_def)

section \<open>Properties of the kit selection\<close>

lemma findHighestPriorityLoop_error:
  "(\<exists>e. findHighestPriorityLoop kits kit pr = Inl e) =
   (\<exists>k \<in> set kits. kitPhase k = IntegrationKitPhaseReady \<and> isl (kitPriority k))"
  by (induction kits arbitrary: kit pr) (auto split: sum.splits)

lemma boundedBy_Nil: "boundedBy [] q"
  by (simp add: boundedBy_def)

lemma boundedBy_skip:
  "kitPhase k \<noteq> IntegrationKitPhaseReady \<Longrightarrow> boundedBy (k # kits) q = boundedBy kits q"
  by (simp add: boundedBy_def)

lemma boundedBy_Cons:
  "kitPriority k = Inr p \<Longrightarrow> p \<le> q \<Longrightarrow> boundedBy kits q \<Longrightarrow> boundedBy (k # kits) q"
  by (simp add: boundedBy_def)

lemma findHighestPriorityLoop_result:
  "findHighestPriorityLoop kits kit0 pr0 = Inr res \<Longrightarrow>
     (res = kit0 \<and> boundedBy kits pr0) \<or>
     (\<exists>k p. res = Some k \<and> k \<in> set kits \<and> kitPhase k = IntegrationKitPhaseReady \<and>
        kitPriority k = Inr p \<and> pr0 < p \<and> boundedBy kits p)"
proof (induction kits arbitrary: kit0 pr0)
  case Nil
  then show ?case by (simp add: boundedBy_Nil)
next
  case (Cons k kits)
  show ?case
  proof (cases "kitPhase k = IntegrationKitPhaseReady")
    case False
    with Cons.prems have "findHighestPriorityLoop kits kit0 pr0 = Inr res" by simp
    from Cons.IH [OF this] show ?thesis
      using False by (auto simp: boundedBy_skip)
  next
    case True
    with Cons.prems obtain p where p: "kitPriority k = Inr p"
      by (cases "kitPriority k") auto
    show ?thesis
    proof (cases "pr0 < p")
      case gt: True
      with True p Cons.prems have "findHighestPriorityLoop kits (Some k) p = Inr res" by simp
      from Cons.IH [OF this]
      consider (keep) "res = Some k" "boundedBy kits p"
        | (later) k2 p2 where "res = Some k2" "k2 \<in> set kits"
            "kitPhase k2 = IntegrationKitPhaseReady" "kitPriority k2 = Inr p2" "p < p2"
            "boundedBy kits p2"
        by blast
      then show ?thesis
      proof cases
        case keep
        from keep(2) p have "boundedBy (k # kits) p" by (simp add: boundedBy_Cons)
        with keep(1) True p gt show ?thesis by auto
      next
        case later
        from later(5,6) p have "boundedBy (k # kits) p2" by (simp add: boundedBy_Cons)
        moreover from gt later(5) have "pr0 < p2" by simp
        ultimately show ?thesis using later(1-4) by auto
      qed
    next
      case le: False
      with True p Cons.prems have "findHighestPriorityLoop kits kit0 pr0 = Inr res" by simp
      from Cons.IH [OF this]
      consider (keep) "res = kit0" "boundedBy kits pr0"
        | (later) k2 p2 where "res = Some k2" "k2 \<in> set kits"
            "kitPhase k2 = IntegrationKitPhaseReady" "kitPriority k2 = Inr p2" "pr0 < p2"
            "boundedBy kits p2"
        by blast
      then show ?thesis
      proof cases
        case keep
        from keep(2) p le have "boundedBy (k # kits) pr0" by (simp add: boundedBy_Cons)
        with keep(1) show ?thesis by simp
      next
        case later
        from later(5,6) p le have "boundedBy (k # kits) p2" by (simp add: boundedBy_Cons)
        with later(1-5) show ?thesis by auto
      qed
    qed
  qed
qed

lemma findHighestPriorityReadyKit_loop:
  "findHighestPriorityReadyKit kits = findHighestPriorityLoop kits None 0"
  by (cases kits) (simp_all add: findHighestPriorityReadyKit_def)

text \<open>
  Claim C3, as the code has it. On no candidates the function selects nothing and
  returns no error. It fails exactly when some Ready candidate carries a priority label
  that does not parse as an integer; the label of a candidate that is not Ready is never
  parsed. When it does not fail, it selects a Ready candidate whose priority is greatest
  among the Ready candidates, provided that priority is greater than zero, and selects
  nothing when no Ready candidate has a priority above zero. The selected kit is one of
  the candidates, so when every candidate has a priority strictly above the current
  kit's, so has the selected one.
\<close>

theorem findHighestPriorityReadyKit_selects:
  "findHighestPriorityReadyKit [] = Inr None \<and>
   ((\<exists>e. findHighestPriorityReadyKit kits = Inl e) =
      (\<exists>k \<in> set kits. kitPhase k = IntegrationKitPhaseReady \<and> isl (kitPriority k))) \<and>
   (findHighestPriorityReadyKit kits = Inr None \<longrightarrow> boundedBy kits 0) \<and>
   (\<forall>k. findHighestPriorityReadyKit kits = Inr (Some k) \<longrightarrow>
      k \<in> set kits \<and> kitPhase k = IntegrationKitPhaseReady \<and>
      (\<exists>p. kitPriority k = Inr p \<and> 0 < p \<and> boundedBy kits p \<and>
         (\<forall>current.
            (\<forall>k' \<in> set kits. \<forall>p'. kitPriority k' = Inr p' \<longrightarrow> current < p') \<longrightarrow>
            current < p)))"
proof (intro conjI allI impI)
  show "findHighestPriorityReadyKit [] = Inr None"
    by (simp add: findHighestPriorityReadyKit_def)
  show "(\<exists>e. findHighestPriorityReadyKit kits = Inl e) =
      (\<exists>k \<in> set kits. kitPhase k = IntegrationKitPhaseReady \<and> isl (kitPriority k))"
    by (simp only: findHighestPriorityReadyKit_loop findHighestPriorityLoop_error)
next
  assume "findHighestPriorityReadyKit kits = Inr None"
  then have "findHighestPriorityLoop kits None 0 = Inr None"
    by (simp only: findHighestPriorityReadyKit_loop)
  from findHighestPriorityLoop_result [OF this] show "boundedBy kits 0" by auto
next
  fix k
  assume "findHighestPriorityReadyKit kits = Inr (Some k)"
  then have "findHighestPriorityLoop kits None 0 = Inr (Some k)"
    by (simp only: findHighestPriorityReadyKit_loop)
  from findHighestPriorityLoop_result [OF this]
  obtain p where sel: "k \<in> set kits" "kitPhase k = IntegrationKitPhaseReady"
    "kitPriority k = Inr p" "0 < p" "boundedBy kits p"
    by auto
  show "k \<in> set kits" by (rule sel(1))
  show "kitPhase k = IntegrationKitPhaseReady" by (rule sel(2))
  from sel show "\<exists>p. kitPriority k = Inr p \<and> 0 < p \<and> boundedBy kits p \<and>
         (\<forall>current.
            (\<forall>k' \<in> set kits. \<forall>p'. kitPriority k' = Inr p' \<longrightarrow> current < p') \<longrightarrow>
            current < p)"
    by auto
qed

lemma Atoi_examples:
  "Atoi ''0'' = Inr 0" "Atoi ''3'' = Inr 3" "Atoi ''5'' = Inr 5" "isl (Atoi ''abc'')"
  by (simp_all add: Atoi_def splitSign_def isDigit_def)

lemma kitPriority_exampleKit: "kitPriority (exampleKit name priority phase) = Atoi priority"
  by (simp add: kitPriority_def exampleKit_def mapGet_def)

theorem findHighestPriorityReadyKit_selects_witness:
  "findHighestPriorityReadyKit
     [exampleKit ''k0'' ''0'' IntegrationKitPhaseReady,
      exampleKit ''k5'' ''5'' IntegrationKitPhaseReady,
      exampleKit ''k3'' ''3'' IntegrationKitPhaseReady] =
     Inr (Some (exampleKit ''k5'' ''5'' IntegrationKitPhaseReady)) \<and>
   kitPriority (exampleKit ''k5'' ''5'' IntegrationKitPhaseReady) = Inr 5 \<and>
   boundedBy
     [exampleKit ''k0'' ''0'' IntegrationKitPhaseReady,
      exampleKit ''k5'' ''5'' IntegrationKitPhaseReady,
      exampleKit ''k3'' ''3'' IntegrationKitPhaseReady] 5"
proof -
  let ?kits = "[exampleKit ''k0'' ''0'' IntegrationKitPhaseReady,
      exampleKit ''k5'' ''5'' IntegrationKitPhaseReady,
      exampleKit ''k3'' ''3'' IntegrationKitPhaseReady]"
  have ph: "kitPhase (exampleKit name priority phase) = phase" for name priority phase
    by (simp add: exampleKit_def)
  have sel: "findHighestPriorityReadyKit ?kits =
      Inr (Some (exampleKit ''k5'' ''5'' IntegrationKitPhaseReady))"
    by (simp add: findHighestPriorityReadyKit_def ph kitPriority_exampleKit Atoi_examples)
  have pr: "kitPriority (exampleKit ''k5'' ''5'' IntegrationKitPhaseReady) = Inr 5"
    by (simp add: kitPriority_exampleKit Atoi_examples)
  from findHighestPriorityReadyKit_selects [of ?kits] sel pr
  have "boundedBy ?kits 5" by auto
  with sel pr show ?thesis by simp
qed

text \<open>
  The claim as the specification words it fails twice: a malformed priority label on a
  candidate that is not Ready is skipped without an error, and a Ready candidate of
  priority zero, the greatest of its list, is not selected.
\<close>

theorem findHighestPriorityReadyKit_skips:
  "isl (kitPriority (exampleKit ''kx'' ''abc'' ''Build Running'')) \<and>
   findHighestPriorityReadyKit [exampleKit ''kx'' ''abc'' ''Build Running''] = Inr None \<and>
   kitPhase (exampleKit ''k0'' ''0'' IntegrationKitPhaseReady) = IntegrationKitPhaseReady \<and>
   kitPriority (exampleKit ''k0'' ''0'' IntegrationKitPhaseReady) = Inr 0 \<and>
   findHighestPriorityReadyKit [exampleKit ''k0'' ''0'' IntegrationKitPhaseReady] = Inr None"
proof -
  have ph: "kitPhase (exampleKit name priority phase) = phase" for name priority phase
    by (simp add: exampleKit_def)
  show ?thesis
    by (simp add: findHighestPriorityReadyKit_def ph kitPriority_exampleKit Atoi_examples)
qed

section \<open>Properties of the digest check and of the kit failure\<close>

text \<open>
  Claim C7. When the digest computed over the Integration and the resource versions of
  its watched configmaps and secrets equals the stored digest, \<open>checkDigestAndRebuild\<close>
  returns nil and a nil error and leaves the Integration as it was.
\<close>

theorem checkDigestAndRebuild_same_digest:
  assumes "getIntegrationSecretAndConfigmapResourceVersions action integration =
             (secrets, configmaps)"
    and "ComputeForIntegration action integration configmaps secrets =
           Inr (Digest integration)"
  shows "checkDigestAndRebuild action integration kit = ((None, None), integration)"
  using assms by (simp add: checkDigestAndRebuild_def)

theorem checkDigestAndRebuild_same_digest_witness:
  "getIntegrationSecretAndConfigmapResourceVersions exampleAction exampleIntegration = ([], []) \<and>
   ComputeForIntegration exampleAction exampleIntegration [] [] =
     Inr (Digest exampleIntegration) \<and>
   checkDigestAndRebuild exampleAction exampleIntegration None =
     ((None, None), exampleIntegration)"
proof -
  have a: "getIntegrationSecretAndConfigmapResourceVersions exampleAction exampleIntegration =
      ([], [])"
    by (simp add: getIntegrationSecretAndConfigmapResourceVersions_def exampleIntegration_def)
  have b: "ComputeForIntegration exampleAction exampleIntegration [] [] =
      Inr (Digest exampleIntegration)"
    by (simp add: exampleAction_def exampleIntegration_def)
  from checkDigestAndRebuild_same_digest [OF a b, of None] a b show ?thesis by simp
qed

text \<open>
  While the Integration is in phase Deploying or Running, a false kit-available
  condition together with a kit in phase Error makes \<open>Handle\<close> return nil and a nil
  error and leave the Integration as it was.
\<close>

lemma Handle_kit_failed_stable:
  assumes "CanHandle integration" and "Phase integration \<noteq> IntegrationPhaseError"
    and "GetCondition integration IntegrationConditionKitAvailable = Some cond"
    and "icStatus cond = ConditionFalse"
    and "IntegrationKit integration = Some ref"
    and "GetIntegrationKit action (refName ref) (refNamespace ref) = Inr kit"
    and "kitPhase kit = IntegrationKitPhaseError"
  shows "Handle action integration = Returns ((None, None), integration)"
  using assms
  by (simp add: Handle_def isInInitializationFailed_def isInIntegrationKitFailed_def)

lemma kitFailedIntegration_facts:
  "CanHandle kitFailedIntegration"
  "Phase kitFailedIntegration \<noteq> IntegrationPhaseError"
  "GetCondition kitFailedIntegration IntegrationConditionKitAvailable =
     Some (plainCondition IntegrationConditionKitAvailable ConditionFalse)"
  "icStatus (plainCondition IntegrationConditionKitAvailable ConditionFalse) = ConditionFalse"
  "IntegrationKit kitFailedIntegration = Some \<lparr>refNamespace = ''prod'', refName = ''kit-a''\<rparr>"
  by (simp_all add: CanHandle_def kitFailedIntegration_def exampleIntegration_def
        GetCondition_def plainCondition_def)

lemma exampleAction_kit:
  "GetIntegrationKit exampleAction
     (refName \<lparr>refNamespace = ''prod'', refName = ''kit-a''\<rparr>)
     (refNamespace \<lparr>refNamespace = ''prod'', refName = ''kit-a''\<rparr>) =
   Inr (exampleKit ''kit-a'' ''0'' IntegrationKitPhaseError)"
  "kitPhase (exampleKit ''kit-a'' ''0'' IntegrationKitPhaseError) = IntegrationKitPhaseError"
  by (simp_all add: exampleAction_def exampleKit_def)

lemma Handle_kit_failed_stable_example:
  "Handle exampleAction kitFailedIntegration = Returns ((None, None), kitFailedIntegration)"
  using Handle_kit_failed_stable [OF kitFailedIntegration_facts exampleAction_kit]
  by simp

section \<open>Properties of the readiness probe\<close>

lemma updatePod_frame:
  "length (psPods (updatePod i f s)) = length (psPods s)"
  "j \<noteq> i \<Longrightarrow> psPods (updatePod i f s) ! j = psPods s ! j"
  "readyPods (updatePod i f s) = readyPods s"
  "unreadyPods (updatePod i f s) = unreadyPods s"
  "runtimeReady (updatePod i f s) = runtimeReady s"
  "runtimeFailed (updatePod i f s) = runtimeFailed s"
  by (simp_all add: updatePod_def)










text \<open>
  The dereference of the PodReady lookup is the only panic: when every pod of the list
  carries a PodReady condition, \<open>probeReadiness\<close> returns.
\<close>

lemma probePod_guarded:
  "GetPodCondition pod PodReady \<noteq> None \<Longrightarrow>
     probePod action environment pod i s \<noteq> StepPanic"
  by (auto simp: probePod_def Let_def split: option.splits if_splits prod.splits sum.splits)

lemma probeLoop_guarded:
  "\<forall>pod \<in> set pods. GetPodCondition pod PodReady \<noteq> None \<Longrightarrow>
     probeLoop action environment pods i s \<noteq> StepPanic"
proof (induction pods arbitrary: i s)
  case Nil
  then show ?case by simp
next
  case (Cons pod pods)
  from Cons.prems have "probePod action environment pod i s \<noteq> StepPanic"
    by (simp add: probePod_guarded)
  with Cons show ?case
    by (cases "probePod action environment pod i s") simp_all
qed

lemma probeReadiness_guarded:
  "\<forall>pod \<in> set pods. GetPodCondition pod PodReady \<noteq> None \<Longrightarrow>
     probeReadiness action environment integration pods \<noteq> Panic"
  using probeLoop_guarded [of pods action environment 0 "initialProbeState pods"]
  by (auto simp: probeReadiness_def split: probeStep.splits prod.splits)

lemma reportProbe_notReady:
  "\<not> runtimeReady s \<Longrightarrow>
     fst (reportProbe s integration) = False \<and>
     GetCondition (snd (reportProbe s integration)) IntegrationConditionReady =
       Some (notReadyCondition IntegrationConditionRuntimeNotReadyReason s)"
  using GetCondition_SetConditions
    [of "notReadyCondition IntegrationConditionRuntimeNotReadyReason s"]
  by (simp add: reportProbe_def Let_def notReadyCondition_def split: prod.splits)


lemma unreadyPod_facts:
  "GetPodCondition unreadyPod PodReady =
     Some \<lparr>pcType = PodReady, pcStatus = ConditionFalse, pcReason = ''ContainersNotReady'',
           pcMessage = ''containers with unready status: [integration]''\<rparr>"
  "getIntegrationContainer exampleEnvironment unreadyPod =
     Some \<lparr>cName = ''integration'',
         ReadinessProbe = Some \<lparr>HTTPGet = Some \<lparr>Path = ''/q/health/ready'', Port = ''8080''\<rparr>\<rparr>\<rparr>"
  "podName unreadyPod = ''routes-1''" "podNamespace unreadyPod = ''prod''"
  "find (\<lambda>c. pcType c = PodReady) (podConditions unreadyPod) =
     Some \<lparr>pcType = PodReady, pcStatus = ConditionFalse, pcReason = ''ContainersNotReady'',
           pcMessage = ''containers with unready status: [integration]''\<rparr>"
  by (simp_all add: GetPodCondition_def getIntegrationContainer_def unreadyPod_def
        examplePod_def exampleEnvironment_def)













lemma notReadyMessage_one: "notReadyMessage (Suc 0) 0 = ''1/1 pods are not ready''"
  by code_simp

text \<open>
  Claim C2 at a concrete input: one pod that is not ready, whose proxied probe returns
  HTTP 503 with a report holding one check that is down. \<open>probeReadiness\<close> returns a
  false \<open>probeOk\<close> and records the check on the pod, but the reason it leaves on the
  ready condition is the runtime-not-ready reason: the block for a failed runtime sets
  the error reason, and the block for a runtime that is not ready, which runs whenever
  the first one does, overwrites it.
\<close>

theorem probeReadiness_service_unavailable_reason:
  "probeResult (probeReadiness unavailableAction exampleEnvironment exampleIntegration
      [unreadyPod]) = Some (0, False, None) \<and>
   map_option icStatus (readyConditionAfter (probeReadiness unavailableAction
      exampleEnvironment exampleIntegration [unreadyPod])) = Some ConditionFalse \<and>
   map_option icReason (readyConditionAfter (probeReadiness unavailableAction
      exampleEnvironment exampleIntegration [unreadyPod])) =
     Some IntegrationConditionRuntimeNotReadyReason \<and>
   map_option icMessage (readyConditionAfter (probeReadiness unavailableAction
      exampleEnvironment exampleIntegration [unreadyPod])) =
     Some ''1/1 pods are not ready'' \<and>
   map_option (\<lambda>c. map ipHealth (icPods c)) (readyConditionAfter (probeReadiness
      unavailableAction exampleEnvironment exampleIntegration [unreadyPod])) =
     Some [[downCheck]]"
proof -
  have p: "proxyGetHTTPProbe unavailableAction pod container =
      (''DOWN'', Some (StatusError 503 ''service unavailable''))" for pod container
    by (simp add: unavailableAction_def)
  have h: "NewHealthCheck unavailableAction body =
      Inr \<lparr>hStatus = ''DOWN'', Checks = [downCheck]\<rparr>" for body
    by (simp add: unavailableAction_def exampleAction_def)
  have d: "hcStatus downCheck \<noteq> HealthCheckStatusUp"
    by (simp add: downCheck_def)
  obtain s where s: "probePod unavailableAction exampleEnvironment unreadyPod 0
      (initialProbeState [unreadyPod]) = StepNext s"
    "\<not> runtimeReady s" "runtimeFailed s" "readyPods s = 0" "unreadyPods s = 1"
    "map ipHealth (psPods s) = [[downCheck]]"
    by (simp add: probePod_def Let_def unreadyPod_facts p h d isDeadlineExceeded_def
          IsServiceUnavailable_def initialProbeState_def updatePod_def
          zeroIntegrationPodCondition_def)
  from reportProbe_notReady [OF s(2), of exampleIntegration]
  obtain i' where r: "reportProbe s exampleIntegration = (False, i')"
    "GetCondition i' IntegrationConditionReady =
       Some (notReadyCondition IntegrationConditionRuntimeNotReadyReason s)"
    by (cases "reportProbe s exampleIntegration") auto
  show ?thesis
    by (simp add: probeReadiness_def s r probeResult_def readyConditionAfter_def
          notReadyCondition_def notReadyMessage_one)
qed

text \<open>
  Claim C9 at a concrete input: a running pod whose status carries no PodReady
  condition. The lookup of the condition yields nil, the ready check reads the status
  of that nil pointer, and \<open>probeReadiness\<close> panics.
\<close>

theorem probeReadiness_missing_ready_condition_panics:
  "GetPodCondition examplePod PodReady = None \<and>
   probeReadiness exampleAction exampleEnvironment exampleIntegration [examplePod] = Panic"
  by (simp add: probeReadiness_def probePod_def Let_def GetPodCondition_def examplePod_def)

section \<open>Properties of the pod monitoring\<close>

text \<open>
  Claim C8. When the resolved controller lacks the integration label on its template,
  \<open>monitorPods\<close> returns the Integration and a nil error, and the ready condition of
  the Integration is false with the monitoring-unavailable reason and the guidance
  message that names the Integration and the controller.
\<close>

theorem monitorPods_label_gap_reported:
  assumes "newController action environment integration = Inr controller"
    and "\<not> hasTemplateIntegrationLabel controller"
  shows "\<exists>integration'.
           monitorPods action environment integration =
             Returns ((Some integration', None), integration') \<and>
           GetCondition integration' IntegrationConditionReady =
             Some \<lparr>icType = IntegrationConditionReady, icStatus = ConditionFalse,
                   icReason = IntegrationConditionMonitoringPodsAvailableReason,
                   icMessage =
                     ''Could not find `camel.apache.org/integration: '' @ Name integration @
                     ''` label in the '' @ getControllerName controller @
                     '' template. Make sure to include this label in the template for Pod monitoring purposes.'',
                   icPods = []\<rparr>"
  using assms GetCondition_SetConditions
    [of "\<lparr>icType = IntegrationConditionReady, icStatus = ConditionFalse,
          icReason = IntegrationConditionMonitoringPodsAvailableReason,
          icMessage = monitoringUnavailableMessage integration controller,
          icPods = []\<rparr>" integration]
  by (simp add: monitorPods_def Let_def monitoringUnavailableMessage_def)

lemma deployed_newController:
  "deploymentController action \<lparr>objType = Deployment, objName = ''routes''\<rparr> = controller \<Longrightarrow>
   newController action exampleEnvironment
     (deployedIntegration\<lparr>Phase := ph\<rparr>) = Inr controller"
  by (simp add: newController_def IsConditionTrue_def GetCondition_def deployedIntegration_def
        exampleIntegration_def plainCondition_def getUpdatedController_def
        exampleEnvironment_def)

lemma deployedIntegration_Phase:
  "deployedIntegration\<lparr>Phase := IntegrationPhaseDeploying\<rparr> = deployedIntegration"
  by (simp add: deployedIntegration_def exampleIntegration_def)

lemma unlabelled_newController:
  "newController unlabelledAction exampleEnvironment deployedIntegration =
     Inr (exampleController\<lparr>hasTemplateIntegrationLabel := False\<rparr>)"
  using deployed_newController
    [of unlabelledAction "exampleController\<lparr>hasTemplateIntegrationLabel := False\<rparr>"
        IntegrationPhaseDeploying]
  by (simp add: deployedIntegration_Phase unlabelledAction_def)

theorem monitorPods_label_gap_reported_witness:
  "newController unlabelledAction exampleEnvironment deployedIntegration =
     Inr (exampleController\<lparr>hasTemplateIntegrationLabel := False\<rparr>) \<and>
   returnedError (monitorPods unlabelledAction exampleEnvironment deployedIntegration) = None \<and>
   finalPhase (monitorPods unlabelledAction exampleEnvironment deployedIntegration) =
     Some IntegrationPhaseDeploying"
proof -
  have l: "\<not> hasTemplateIntegrationLabel (exampleController\<lparr>hasTemplateIntegrationLabel := False\<rparr>)"
    by simp
  from monitorPods_label_gap_reported [OF unlabelled_newController l]
  obtain i' where r: "monitorPods unlabelledAction exampleEnvironment deployedIntegration =
      Returns ((Some i', None), i')"
    by blast
  have "finalPhase (monitorPods unlabelledAction exampleEnvironment deployedIntegration) =
      Some IntegrationPhaseDeploying"
    using unlabelled_newController
    by (simp add: finalPhase_def monitorPods_def Let_def SetConditions_def
          deployedIntegration_def exampleIntegration_def)
  with r unlabelled_newController show ?thesis
    by (simp add: returnedError_def)
qed

text \<open>
  Claim C10. When the resolved controller lacks the integration label on its template,
  \<open>monitorPods\<close> changes nothing of the Integration but its conditions: the selector,
  the replicas and the phase are as they were.
\<close>

theorem monitorPods_label_gap_frame:
  assumes "newController action environment integration = Inr controller"
    and "\<not> hasTemplateIntegrationLabel controller"
  shows "\<exists>integration'.
           monitorPods action environment integration =
             Returns ((Some integration', None), integration') \<and>
           Selector integration' = Selector integration \<and>
           Replicas integration' = Replicas integration \<and>
           Phase integration' = Phase integration \<and>
           integration' = integration\<lparr>Conditions := Conditions integration'\<rparr>"
  using assms by (simp add: monitorPods_def Let_def SetConditions_def)

theorem monitorPods_label_gap_frame_witness:
  "\<not> hasTemplateIntegrationLabel (exampleController\<lparr>hasTemplateIntegrationLabel := False\<rparr>) \<and>
   (\<exists>integration'.
      monitorPods unlabelledAction exampleEnvironment deployedIntegration =
        Returns ((Some integration', None), integration') \<and>
      Selector integration' = [] \<and> Replicas integration' = None \<and>
      Phase integration' = IntegrationPhaseDeploying)"
proof -
  have l: "\<not> hasTemplateIntegrationLabel (exampleController\<lparr>hasTemplateIntegrationLabel := False\<rparr>)"
    by simp
  have f: "Selector deployedIntegration = []" "Replicas deployedIntegration = None"
    "Phase deployedIntegration = IntegrationPhaseDeploying"
    by (simp_all add: deployedIntegration_def exampleIntegration_def)
  from monitorPods_label_gap_frame [OF unlabelled_newController l] l f
  show ?thesis by auto
qed

lemma probePod_ready:
  assumes "GetPodCondition pod PodReady = Some ready" and "pcStatus ready = ConditionTrue"
  shows "\<exists>s'. probePod action environment pod i s = StepNext s' \<and>
           readyPods s' = readyPods s + 1 \<and> runtimeReady s' = runtimeReady s \<and>
           runtimeFailed s' = runtimeFailed s"
  using assms
  by (simp add: probePod_def Let_def GetPodCondition_def updatePod_frame)

lemma probeReadiness_ready:
  assumes "GetPodCondition pod PodReady = Some ready" and "pcStatus ready = ConditionTrue"
  shows "probeReadiness action environment integration [pod] =
           Returns ((1, True, None), integration)"
proof -
  from probePod_ready [OF assms, of action environment 0 "initialProbeState [pod]"]
  obtain s where s: "probePod action environment pod 0 (initialProbeState [pod]) = StepNext s"
    "readyPods s = 1" "runtimeReady s" "\<not> runtimeFailed s"
    by (auto simp: initialProbeState_def)
  then show ?thesis
    by (simp add: probeReadiness_def reportProbe_def)
qed

lemma arePodsFailingStatuses_quiet:
  "\<not> podsFailing pendingPods runningPods \<Longrightarrow>
     arePodsFailingStatuses integration pendingPods runningPods = (False, integration)"
  using arePodsFailingStatuses_result [of integration pendingPods runningPods]
    arePodsFailingStatuses_effect [of integration pendingPods runningPods]
  by auto

lemma update_ready_pod:
  assumes "GetPodCondition pod PodReady = Some ready" and "pcStatus ready = ConditionTrue"
    and "\<not> (DeletionTimestamp pod = None \<and> hasCrashOrError pod)"
    and "\<forall>i. fst (checkReadyCondition controller i) = (False, None)"
    and "\<forall>i. fst (updateReadyCondition controller 1 i) = True"
  shows "\<exists>i'. updateIntegrationPhaseAndReadyCondition action controller environment
                 integration [] [pod] = Returns (None, i') \<and>
              Phase i' = IntegrationPhaseRunning"
proof -
  obtain i1 where c: "checkReadyCondition controller integration = ((False, None), i1)"
    using assms(4) by (metis prod.collapse)
  from assms(3) have q: "\<not> podsFailing [] [pod]"
    by (simp add: podsFailing_def)
  obtain i4 where u: "updateReadyCondition controller (Suc 0) i1 = (True, i4)"
    using assms(5) by (metis One_nat_def prod.collapse)
  show ?thesis
    by (simp add: updateIntegrationPhaseAndReadyCondition_def c
          arePodsFailingStatuses_quiet [OF q] probeReadiness_ready [OF assms(1,2)] u)
qed

text \<open>
  Claim C6, as the code has it. Once the controller carries the integration label and
  both pod lists are read, an Integration in phase Deploying enters the readiness
  reconciliation in phase Running. With no pending pod and one running pod whose
  PodReady condition is true and which shows no crash loop and no Error termination
  (or is being deleted), under a controller whose \<open>checkReadyCondition\<close> neither
  reports done nor fails and whose \<open>updateReadyCondition(1)\<close> returns true, the pass
  returns the Integration in phase Running and no error.
\<close>

theorem monitorPods_deploying_advances:
  assumes "newController action environment integration = Inr controller"
    and "hasTemplateIntegrationLabel controller"
    and "ListPods action (Namespace integration) (Name integration) PodPending =
           Inr pendingPods"
    and "ListPods action (Namespace integration) (Name integration) PodRunning =
           Inr runningPods"
  shows "(Phase integration = IntegrationPhaseDeploying \<longrightarrow>
            monitorPods action environment integration =
              (case updateIntegrationPhaseAndReadyCondition action controller environment
                      (integration\<lparr>Selector := IntegrationLabel @ ''='' @ Name integration,
                         Replicas := Some (of_nat (length pendingPods +
                           length (filter (\<lambda>p. DeletionTimestamp p = None) runningPods))),
                         Phase := IntegrationPhaseRunning\<rparr>)
                      pendingPods runningPods of
                 Panic \<Rightarrow> Panic
               | Returns (Some err, i4) \<Rightarrow> Returns ((None, Some err), i4)
               | Returns (None, i4) \<Rightarrow> Returns ((Some i4, None), i4))) \<and>
         (pendingPods = [] \<and> runningPods = [pod] \<and>
          GetPodCondition pod PodReady = Some ready \<and> pcStatus ready = ConditionTrue \<and>
          \<not> (DeletionTimestamp pod = None \<and> hasCrashOrError pod) \<and>
          (\<forall>i. fst (checkReadyCondition controller i) = (False, None)) \<and>
          (\<forall>i. fst (updateReadyCondition controller 1 i) = True) \<longrightarrow>
            (\<exists>i'. monitorPods action environment integration =
                     Returns ((Some i', None), i') \<and>
                   Phase i' = IntegrationPhaseRunning))"
proof (intro conjI impI)
  assume "Phase integration = IntegrationPhaseDeploying"
  with assms show "monitorPods action environment integration =
              (case updateIntegrationPhaseAndReadyCondition action controller environment
                      (integration\<lparr>Selector := IntegrationLabel @ ''='' @ Name integration,
                         Replicas := Some (of_nat (length pendingPods +
                           length (filter (\<lambda>p. DeletionTimestamp p = None) runningPods))),
                         Phase := IntegrationPhaseRunning\<rparr>)
                      pendingPods runningPods of
                 Panic \<Rightarrow> Panic
               | Returns (Some err, i4) \<Rightarrow> Returns ((None, Some err), i4)
               | Returns (None, i4) \<Rightarrow> Returns ((Some i4, None), i4))"
    by (simp add: monitorPods_def Let_def)
next
  assume a: "pendingPods = [] \<and> runningPods = [pod] \<and>
          GetPodCondition pod PodReady = Some ready \<and> pcStatus ready = ConditionTrue \<and>
          \<not> (DeletionTimestamp pod = None \<and> hasCrashOrError pod) \<and>
          (\<forall>i. fst (checkReadyCondition controller i) = (False, None)) \<and>
          (\<forall>i. fst (updateReadyCondition controller 1 i) = True)"
  define i3 where "i3 = (let i2 = integration\<lparr>Selector := IntegrationLabel @ ''='' @ Name integration,
          Replicas := Some (of_nat (length pendingPods +
            length (filter (\<lambda>pod. DeletionTimestamp pod = None) runningPods)))\<rparr>
        in if Phase i2 = IntegrationPhaseDeploying
           then i2\<lparr>Phase := IntegrationPhaseRunning\<rparr> else i2)"
  from a update_ready_pod [of pod ready controller action environment i3]
  obtain i' where u: "updateIntegrationPhaseAndReadyCondition action controller environment
                 i3 [] [pod] = Returns (None, i')" "Phase i' = IntegrationPhaseRunning"
    by blast
  from assms a have "monitorPods action environment integration =
      (case updateIntegrationPhaseAndReadyCondition action controller environment
                         i3 [] [pod] of
                    Panic \<Rightarrow> Panic
                  | Returns (Some err, i4) \<Rightarrow> Returns ((None, Some err), i4)
                  | Returns (None, i4) \<Rightarrow> Returns ((Some i4, None), i4))"
    by (simp add: monitorPods_def Let_def i3_def)
  with u show "\<exists>i'. monitorPods action environment integration =
                     Returns ((Some i', None), i') \<and>
                   Phase i' = IntegrationPhaseRunning"
    by simp
qed

lemma readyPod_facts:
  "GetPodCondition readyPod PodReady =
     Some \<lparr>pcType = PodReady, pcStatus = ConditionTrue, pcReason = [], pcMessage = []\<rparr>"
  "\<not> hasCrashOrError readyPod"
  by (simp_all add: GetPodCondition_def readyPod_def examplePod_def hasCrashOrError_def
        podContainerStatuses_def)

lemma exampleController_facts:
  "hasTemplateIntegrationLabel exampleController"
  "fst (checkReadyCondition exampleController i) = (False, None)"
  "fst (updateReadyCondition exampleController 1 i) = True"
  by (simp_all add: exampleController_def)

lemma example_newController:
  "newController exampleAction exampleEnvironment deployedIntegration = Inr exampleController"
  using deployed_newController [of exampleAction exampleController IntegrationPhaseDeploying]
  by (simp add: deployedIntegration_Phase exampleAction_def)

lemma example_ListPods:
  "ListPods exampleAction namespace name PodPending = Inr []"
  "ListPods exampleAction namespace name PodRunning = Inr [readyPod]"
  by (simp_all add: exampleAction_def)

theorem monitorPods_deploying_advances_witness:
  "Phase deployedIntegration = IntegrationPhaseDeploying \<and>
   finalPhase (monitorPods exampleAction exampleEnvironment deployedIntegration) =
     Some IntegrationPhaseRunning \<and>
   returnedError (monitorPods exampleAction exampleEnvironment deployedIntegration) = None"
proof -
  have p: "Phase deployedIntegration = IntegrationPhaseDeploying"
    by (simp add: deployedIntegration_def exampleIntegration_def)
  from monitorPods_deploying_advances
    [OF example_newController exampleController_facts(1) example_ListPods,
     of readyPod "\<lparr>pcType = PodReady, pcStatus = ConditionTrue, pcReason = [], pcMessage = []\<rparr>"]
    readyPod_facts exampleController_facts(2,3)
  obtain i' where "monitorPods exampleAction exampleEnvironment deployedIntegration =
      Returns ((Some i', None), i')" "Phase i' = IntegrationPhaseRunning"
    by auto
  with p show ?thesis by (simp add: finalPhase_def returnedError_def)
qed

text \<open>
  The scenario as the specification words it fails twice. A running pod whose PodReady
  condition is true and one of whose containers is terminated with reason Error makes
  the failure scan set the phase to Error before readiness is looked at. And a
  controller whose \<open>checkReadyCondition\<close> fails ends the pass with that error, whatever
  its \<open>updateReadyCondition(1)\<close> would return.
\<close>

theorem monitorPods_ready_pod_not_running:
  "Phase deployedIntegration = IntegrationPhaseDeploying \<and>
   ListPods terminatedErrorAction ''prod'' ''routes'' PodPending = Inr [] \<and>
   ListPods terminatedErrorAction ''prod'' ''routes'' PodRunning = Inr [terminatedErrorPod] \<and>
   map_option pcStatus (GetPodCondition terminatedErrorPod PodReady) = Some ConditionTrue \<and>
   fst (updateReadyCondition exampleController 1 deployedIntegration) = True \<and>
   finalPhase (monitorPods terminatedErrorAction exampleEnvironment deployedIntegration) =
     Some IntegrationPhaseError \<and>
   ListPods failingCheckAction ''prod'' ''routes'' PodPending = Inr [] \<and>
   ListPods failingCheckAction ''prod'' ''routes'' PodRunning = Inr [readyPod] \<and>
   map_option pcStatus (GetPodCondition readyPod PodReady) = Some ConditionTrue \<and>
   returnedError (monitorPods failingCheckAction exampleEnvironment deployedIntegration) =
     Some (StatusError 500 ''cannot list jobs'')"
proof -
  have ph: "Phase deployedIntegration = IntegrationPhaseDeploying"
    "Namespace deployedIntegration = ''prod''" "Name deployedIntegration = ''routes''"
    by (simp_all add: deployedIntegration_def exampleIntegration_def)
  have la: "ListPods terminatedErrorAction namespace name PodPending = Inr []"
    "ListPods terminatedErrorAction namespace name PodRunning = Inr [terminatedErrorPod]"
    for namespace name
    by (simp_all add: terminatedErrorAction_def)
  have lb: "ListPods failingCheckAction namespace name PodPending = Inr []"
    "ListPods failingCheckAction namespace name PodRunning = Inr [readyPod]"
    for namespace name
    by (simp_all add: failingCheckAction_def exampleAction_def)
  have ra: "map_option pcStatus (GetPodCondition terminatedErrorPod PodReady) = Some ConditionTrue"
    "GetPodCondition terminatedErrorPod PodReady =
       Some \<lparr>pcType = PodReady, pcStatus = ConditionTrue, pcReason = [], pcMessage = []\<rparr>"
    by (simp_all add: GetPodCondition_def terminatedErrorPod_def readyPod_def examplePod_def)
  have na: "newController terminatedErrorAction exampleEnvironment deployedIntegration =
      Inr exampleController"
    using deployed_newController
      [of terminatedErrorAction exampleController IntegrationPhaseDeploying]
    by (simp add: deployedIntegration_Phase terminatedErrorAction_def exampleAction_def)
  have nb: "newController failingCheckAction exampleEnvironment deployedIntegration =
      Inr (exampleController\<lparr>checkReadyCondition :=
          (\<lambda>integration. ((False, Some (StatusError 500 ''cannot list jobs'')), integration))\<rparr>)"
    using deployed_newController
      [of failingCheckAction "exampleController\<lparr>checkReadyCondition :=
          (\<lambda>integration. ((False, Some (StatusError 500 ''cannot list jobs'')), integration))\<rparr>"
          IntegrationPhaseDeploying]
    by (simp add: deployedIntegration_Phase failingCheckAction_def)
  have sc: "scanRunningContainers [terminatedErrorPod] = Some ''exit code 1''"
    by (simp add: terminatedErrorPod_def readyPod_def examplePod_def podContainerStatuses_def
          containerCrashLoop_def containerTerminatedError_def)
  have fa: "arePodsFailingStatuses i [] [terminatedErrorPod] = (True, failWith ''exit code 1'' i)"
    for i
    unfolding arePodsFailingStatuses_def sc by simp
  have ck: "checkReadyCondition exampleController i = ((False, None), i)" for i
    by (simp add: exampleController_def)
  have a: "finalPhase (monitorPods terminatedErrorAction exampleEnvironment deployedIntegration) =
     Some IntegrationPhaseError"
    by (simp add: monitorPods_def na exampleController_facts(1) la Let_def
          updateIntegrationPhaseAndReadyCondition_def ck fa finalPhase_def failWith_Phase)
  have pr: "probeReadiness action environment i [readyPod] = Returns ((1, True, None), i)"
    for action environment i
    by (rule probeReadiness_ready [OF readyPod_facts(1)]) simp
  have b: "returnedError (monitorPods failingCheckAction exampleEnvironment deployedIntegration) =
     Some (StatusError 500 ''cannot list jobs'')"
    by (simp add: monitorPods_def nb exampleController_facts(1) lb Let_def
          updateIntegrationPhaseAndReadyCondition_def pr returnedError_def)
  from ph(1) la lb ra(1) readyPod_facts(1) exampleController_facts(3) a b
  show ?thesis by simp
qed

section \<open>The kit failure in phase Error\<close>

lemma errorPhaseIntegration_facts:
  "Phase errorPhaseIntegration = IntegrationPhaseError"
  "Name errorPhaseIntegration = ''routes''" "Namespace errorPhaseIntegration = ''prod''"
  "Digest errorPhaseIntegration = ''from:timer''"
  "SpecRest errorPhaseIntegration = ''from:timer''"
  "IntegrationKit errorPhaseIntegration = Some \<lparr>refNamespace = ''prod'', refName = ''kit-a''\<rparr>"
  "GetCondition errorPhaseIntegration IntegrationConditionReady = None"
  "GetCondition errorPhaseIntegration IntegrationConditionKitAvailable =
     Some (plainCondition IntegrationConditionKitAvailable ConditionFalse)"
  "getIntegrationSecretAndConfigmapResourceVersions exampleAction errorPhaseIntegration =
     ([], [])"
  by (simp_all add: errorPhaseIntegration_def exampleIntegration_def GetCondition_def
        plainCondition_def getIntegrationSecretAndConfigmapResourceVersions_def)

lemma errorPhase_newController:
  "newController exampleAction exampleEnvironment errorPhaseIntegration = Inr exampleController"
  by (simp add: newController_def IsConditionTrue_def GetCondition_def
        errorPhaseIntegration_def exampleIntegration_def plainCondition_def
        getUpdatedController_def exampleEnvironment_def exampleAction_def)

lemma errorPhase_monitorPods:
  "finalPhase (monitorPods exampleAction exampleEnvironment errorPhaseIntegration) =
     Some IntegrationPhaseRunning \<and>
   returnedError (monitorPods exampleAction exampleEnvironment errorPhaseIntegration) = None \<and>
   monitorPods exampleAction exampleEnvironment errorPhaseIntegration \<noteq>
     Returns ((None, None), errorPhaseIntegration)"
proof -
  define i3 where "i3 = errorPhaseIntegration\<lparr>Selector := ''camel.apache.org/integration=routes'',
      Replicas := Some 1\<rparr>"
  have dt: "DeletionTimestamp readyPod = None"
    by (simp add: readyPod_def examplePod_def)
  have q: "\<not> (DeletionTimestamp readyPod = None \<and> hasCrashOrError readyPod)"
    by (simp add: readyPod_facts)
  from update_ready_pod [OF readyPod_facts(1) _ q, of exampleController exampleAction
      exampleEnvironment i3] exampleController_facts(2,3)
  obtain i' where u: "updateIntegrationPhaseAndReadyCondition exampleAction exampleController
      exampleEnvironment i3 [] [readyPod] = Returns (None, i')"
    "Phase i' = IntegrationPhaseRunning"
    by auto
  have "monitorPods exampleAction exampleEnvironment errorPhaseIntegration =
      Returns ((Some i', None), i')"
    by (simp add: monitorPods_def errorPhase_newController exampleController_facts(1)
          example_ListPods Let_def errorPhaseIntegration_facts dt i3_def [symmetric] u)
  with u(2) show ?thesis by (simp add: finalPhase_def returnedError_def)
qed

text \<open>
  Claim C4 at a concrete input: an Integration in phase Error whose kit-available
  condition is false, whose kit resolves and has phase Error, and whose digest is
  unchanged. \<open>isInIntegrationKitFailed\<close> is false on it, because it asks for a phase
  other than Error, so \<open>Handle\<close> does not stop: it runs the traits and the pod
  monitoring, and returns the Integration, changed, in phase Running.
\<close>

theorem Handle_error_phase_not_stable:
  "CanHandle errorPhaseIntegration \<and>
   Phase errorPhaseIntegration = IntegrationPhaseError \<and>
   map_option icStatus (GetCondition errorPhaseIntegration IntegrationConditionKitAvailable) =
     Some ConditionFalse \<and>
   GetIntegrationKit exampleAction ''kit-a'' ''prod'' =
     Inr (exampleKit ''kit-a'' ''0'' IntegrationKitPhaseError) \<and>
   kitPhase (exampleKit ''kit-a'' ''0'' IntegrationKitPhaseError) = IntegrationKitPhaseError \<and>
   \<not> isInIntegrationKitFailed errorPhaseIntegration \<and>
   Handle exampleAction errorPhaseIntegration \<noteq> Returns ((None, None), errorPhaseIntegration) \<and>
   returnedError (Handle exampleAction errorPhaseIntegration) = None \<and>
   finalPhase (Handle exampleAction errorPhaseIntegration) = Some IntegrationPhaseRunning"
proof -
  have k: "GetIntegrationKit exampleAction ''kit-a'' ''prod'' =
     Inr (exampleKit ''kit-a'' ''0'' IntegrationKitPhaseError)"
    by (simp add: exampleAction_def)
  have kp: "kitPhase (exampleKit ''kit-a'' ''0'' IntegrationKitPhaseError) =
      IntegrationKitPhaseError"
    "kitLabels (exampleKit ''kit-a'' ''0'' IntegrationKitPhaseError)
       IntegrationKitPriorityLabel = Some ''0''"
    by (simp_all add: exampleKit_def)
  have nf: "\<not> isInIntegrationKitFailed errorPhaseIntegration"
    "\<not> isInInitializationFailed errorPhaseIntegration"
    by (simp_all add: isInIntegrationKitFailed_def isInInitializationFailed_def
          errorPhaseIntegration_facts)
  have cd: "ComputeForIntegration exampleAction errorPhaseIntegration [] [] = Inr ''from:timer''"
    by (simp add: exampleAction_def errorPhaseIntegration_facts)
  have d: "checkDigestAndRebuild exampleAction errorPhaseIntegration kit =
      ((None, None), errorPhaseIntegration)" for kit
    by (simp add: checkDigestAndRebuild_def errorPhaseIntegration_facts cd)
  have a: "NewRequirement exampleAction key priority = None"
    "lookupKitsForIntegration exampleAction integration priority = Inr []"
    "traitApply exampleAction integration kit = (Inr exampleEnvironment, integration)"
    for key priority integration kit
    by (simp_all add: exampleAction_def)
  have u: "upgradeKitAndMonitor exampleAction errorPhaseIntegration
        (exampleKit ''kit-a'' ''0'' IntegrationKitPhaseError) =
      monitorPods exampleAction exampleEnvironment errorPhaseIntegration"
    by (simp add: upgradeKitAndMonitor_def kp a findHighestPriorityReadyKit_def)
  have h: "Handle exampleAction errorPhaseIntegration =
      monitorPods exampleAction exampleEnvironment errorPhaseIntegration"
    by (simp add: Handle_def nf errorPhaseIntegration_facts k kp d u)
  from errorPhase_monitorPods h nf(1) k kp(1) show ?thesis
    by (simp add: CanHandle_def errorPhaseIntegration_facts plainCondition_def)
qed

end
